theory Spec2Isabelle
  imports Complex_Main "HOL-Library.Char_ord" "HOL-Library.List_Lexorder"
begin

section \<open>Python values, exceptions and the outside world\<close>

text \<open>
  The handlers work on dictionaries decoded from JSON and on items of the document store.
  A key of such a dictionary is absent, present with the value \<open>None\<close>, or present with a
  value: the three cases behave differently under \<open>d.get(k, default)\<close>, so they are kept
  apart. A number (Python \<open>int\<close>, \<open>float\<close>, \<open>Decimal\<close>) is modelled by its value, a rational.
\<close>

datatype 'a attr = Absent | Null | Val 'a

text \<open>\<open>d.get(k, default)\<close>: the result is \<open>None\<close> when the key holds \<open>None\<close>.\<close>

definition get_or :: "'a attr \<Rightarrow> 'a \<Rightarrow> 'a option" where
  "get_or a d = (case a of Absent \<Rightarrow> Some d | Null \<Rightarrow> None | Val v \<Rightarrow> Some v)"

text \<open>\<open>d.get(k)\<close>.\<close>

definition get_attr :: "'a attr \<Rightarrow> 'a option" where
  "get_attr a = (case a of Absent \<Rightarrow> None | Null \<Rightarrow> None | Val v \<Rightarrow> Some v)"

text \<open>A Python value written into a dictionary literal: the key is present.\<close>

definition stored :: "'a option \<Rightarrow> 'a attr" where
  "stored v = (case v of None \<Rightarrow> Null | Some x \<Rightarrow> Val x)"

datatype exc_kind =
  TypeError | AttributeError | KeyError | ValueError | OverflowError | ZeroDivisionError
  | ClientError | URLError

text \<open>An exception: its class and \<open>str(e)\<close>.\<close>

type_synonym exn = "exc_kind \<times> string"

subsection \<open>Strings\<close>

definition upper_char :: "char \<Rightarrow> char" where
  "upper_char c =
     (case map_of (zip ''abcdefghijklmnopqrstuvwxyz'' ''ABCDEFGHIJKLMNOPQRSTUVWXYZ'') c of
        None \<Rightarrow> c | Some u \<Rightarrow> u)"

definition lower_char :: "char \<Rightarrow> char" where
  "lower_char c =
     (case map_of (zip ''ABCDEFGHIJKLMNOPQRSTUVWXYZ'' ''abcdefghijklmnopqrstuvwxyz'') c of
        None \<Rightarrow> c | Some l \<Rightarrow> l)"

definition is_cased :: "char \<Rightarrow> bool" where
  "is_cased c \<longleftrightarrow> c \<in> set ''abcdefghijklmnopqrstuvwxyzABCDEFGHIJKLMNOPQRSTUVWXYZ''"

text \<open>\<open>s.upper()\<close>, \<open>s.lower()\<close>, \<open>s.replace("_", " ")\<close> and \<open>s.title()\<close> on ASCII text.\<close>

definition str_upper :: "string \<Rightarrow> string" where
  "str_upper s = map upper_char s"

definition str_lower :: "string \<Rightarrow> string" where
  "str_lower s = map lower_char s"

definition replace_underscores :: "string \<Rightarrow> string" where
  "replace_underscores s = map (\<lambda>c. if c = CHR ''_'' then CHR '' '' else c) s"

fun title_from :: "bool \<Rightarrow> string \<Rightarrow> string" where
  "title_from prev_cased [] = []"
| "title_from prev_cased (c # cs) =
     (if is_cased c
      then (if prev_cased then lower_char c else upper_char c) # title_from True cs
      else c # title_from False cs)"

definition str_title :: "string \<Rightarrow> string" where
  "str_title s = title_from False s"

subsection \<open>The datetime library\<close>

text \<open>
  A naive \<open>datetime\<close> is the number of microseconds since 0001-01-01T00:00:00; the largest
  one is 9999-12-31T23:59:59.999999. The conversions between text and datetimes belong to
  the standard library and are parameters of the model, and so are \<open>int(s)\<close> for a string
  (\<open>int_str\<close>) and the arithmetic of floats; \<open>None\<close> stands for \<open>ValueError\<close>.
\<close>

definition DAY :: int where
  "DAY = 86400000000"

definition MAX_DATETIME :: int where
  "MAX_DATETIME = 3652059 * DAY - 1"

datatype datetime = Naive int | Aware int int

record pylib =
  int_str :: "string \<Rightarrow> int option"
  strptime_ymd :: "string \<Rightarrow> int option"
  fromisoformat :: "string \<Rightarrow> datetime option"
  strftime_ymd :: "int \<Rightarrow> string"
  strftime_ym :: "int \<Rightarrow> string"
  isoformat :: "int \<Rightarrow> string"
  float_add :: "rat \<Rightarrow> rat \<Rightarrow> rat"
  float_sub :: "rat \<Rightarrow> rat \<Rightarrow> rat"
  float_mul :: "rat \<Rightarrow> rat \<Rightarrow> rat"
  float_div :: "rat \<Rightarrow> rat \<Rightarrow> rat"
  float_sum :: "rat list \<Rightarrow> rat"
  float_round :: "rat \<Rightarrow> nat \<Rightarrow> rat"

text \<open>\<open>timedelta(days=n)\<close> and \<open>d + timedelta\<close>, \<open>d - timedelta\<close>, with their range checks.\<close>

definition timedelta_days :: "int \<Rightarrow> exn + int" where
  "timedelta_days n =
     (if \<bar>n\<bar> > 999999999 then Inl (OverflowError, ''days out of range'')
      else Inr (n * DAY))"

definition datetime_add :: "int \<Rightarrow> int \<Rightarrow> exn + int" where
  "datetime_add d delta =
     (if d + delta < 0 \<or> MAX_DATETIME < d + delta
      then Inl (OverflowError, ''date value out of range'')
      else Inr (d + delta))"

text \<open>\<open>(a - b).days\<close> for naive datetimes: the timedelta's day count is the floor.\<close>

definition days_between :: "int \<Rightarrow> int \<Rightarrow> int" where
  "days_between a b = (a - b) div DAY"

subsection \<open>Aggregator records and stored items\<close>

record pfc =
  primary :: "string attr"
  detailed :: "string attr"

record location =
  city :: "string attr"
  region :: "string attr"
  country :: "string attr"

record plaid_txn =
  p_transaction_id :: "string attr"
  p_account_id :: "string attr"
  p_amount :: "rat attr"
  p_name :: "string attr"
  p_merchant_name :: "string attr"
  p_date :: "string attr"
  p_datetime :: "string attr"
  p_pending :: "bool attr"
  p_personal_finance_category :: "pfc attr"
  p_category :: "string list attr"
  p_payment_channel :: "string attr"
  p_location :: "location attr"

record stored_location =
  loc_city :: "string attr"
  loc_region :: "string attr"
  loc_country :: "string attr"

text \<open>An item of the transactions table: the key strings and the other attributes.\<close>

record txn =
  pk :: string
  sk :: string
  id :: "string attr"
  user_id :: "string attr"
  account_id :: "string attr"
  plaid_transaction_id :: "string attr"
  amount :: "rat attr"
  is_debit :: "bool attr"
  description :: "string attr"
  merchant_name :: "string attr"
  date :: "string attr"
  datetime_str :: "string attr"
  pending :: "bool attr"
  category_name :: "string attr"
  category_detailed :: "string attr"
  category_icon :: "string attr"
  category_color :: "string attr"
  payment_channel :: "string attr"
  location :: "stored_location attr"
  created_at :: "string attr"
  synced_at :: "string attr"

record account =
  a_id :: "string attr"
  a_plaid_access_token :: "string attr"
  a_plaid_account_id :: "string attr"
  a_plaid_sync_cursor :: "string attr"
  a_last_synced :: "string attr"

text \<open>
  A goal item, and also the dictionaries \<open>goal_data\<close> and \<open>updates\<close> that the repository
  is called with: a key that is not in the dictionary is \<open>Absent\<close>. The store keeps the
  numbers it is given (\<open>float_to_decimal\<close> on the way in and \<open>decimal_to_float\<close> on the way
  out give back the same float).
\<close>

record goal =
  g_pk :: "string attr"
  g_sk :: "string attr"
  g_id :: "string attr"
  g_user_id :: "string attr"
  g_created_at :: "string attr"
  g_last_updated :: "string attr"
  g_status :: "string attr"
  g_is_ai_generated :: "bool attr"
  g_progress :: "rat attr"
  g_title :: "string attr"
  g_description :: "string attr"
  g_target_amount :: "rat attr"
  g_current_amount :: "rat attr"
  g_target_date :: "string attr"
  g_category :: "string attr"
  g_priority :: "int attr"

subsection \<open>The world\<close>

record plaid_creds =
  client_id :: "string attr"
  secret :: "string attr"
  environment :: "string attr"

record sync_request =
  sr_host :: string
  sr_client_id :: "string option"
  sr_secret :: "string option"
  sr_access_token :: string
  sr_count :: int
  sr_cursor :: "string attr"

record removed_txn =
  r_transaction_id :: "string attr"

record sync_response =
  added :: "plaid_txn list attr"
  modified :: "plaid_txn list attr"
  removed :: "removed_txn list attr"
  next_cursor :: "string attr"
  has_more :: "bool attr"

record get_request =
  gr_host :: string
  gr_client_id :: "string option"
  gr_secret :: "string option"
  gr_access_token :: string
  gr_start_date :: string
  gr_end_date :: string
  gr_account_ids :: "string option list"

record get_response =
  transactions :: "plaid_txn list attr"

text \<open>
  What the code cannot decide: the identifiers \<open>uuid4\<close> draws, the clock, whether a call
  to the document store fails, and what the secrets manager and the aggregator answer.
  The \<open>n\<close>-th draw, clock reading or store call is the value of the oracle at \<open>n\<close>.
\<close>

record env =
  uuid4 :: "nat \<Rightarrow> string"
  utcnow :: "nat \<Rightarrow> int"
  db_fault :: "nat \<Rightarrow> exn option"
  get_secret_value :: "exn + plaid_creds"
  transactions_sync :: "sync_request \<Rightarrow> exn + sync_response"
  transactions_get :: "get_request \<Rightarrow> exn + get_response"

record world =
  accounts_table :: "string \<times> string \<rightharpoonup> account"
  transactions_table :: "string \<times> string \<rightharpoonup> txn"
  goals_table :: "string \<times> string \<rightharpoonup> goal"
  ids_drawn :: nat
  clock_reads :: nat
  db_calls :: nat

text \<open>
  A computation changes the world and returns a value or raises; what it changed before
  raising stays changed.
\<close>

type_synonym 'a prog = "world \<Rightarrow> (exn + 'a) \<times> world"

definition ret :: "'a \<Rightarrow> 'a prog" where
  "ret x = (\<lambda>w. (Inr x, w))"

definition raise :: "exn \<Rightarrow> 'a prog" where
  "raise e = (\<lambda>w. (Inl e, w))"

definition and_then :: "'a prog \<Rightarrow> ('a \<Rightarrow> 'b prog) \<Rightarrow> 'b prog" where
  "and_then m f = (\<lambda>w. case m w of (Inl e, w') \<Rightarrow> (Inl e, w') | (Inr x, w') \<Rightarrow> f x w')"

definition lift :: "exn + 'a \<Rightarrow> 'a prog" where
  "lift r = (\<lambda>w. (r, w))"

definition generate_id :: "env \<Rightarrow> string prog" where
  "generate_id env = (\<lambda>w. (Inr (uuid4 env (ids_drawn w)), w\<lparr>ids_drawn := Suc (ids_drawn w)\<rparr>))"

definition read_clock :: "env \<Rightarrow> int prog" where
  "read_clock env = (\<lambda>w. (Inr (utcnow env (clock_reads w)), w\<lparr>clock_reads := Suc (clock_reads w)\<rparr>))"

definition get_timestamp :: "env \<Rightarrow> pylib \<Rightarrow> string prog" where
  "get_timestamp env lib = and_then (read_clock env) (\<lambda>now. ret (isoformat lib now @ ''Z''))"

section \<open>Mapping an aggregator record (sync\_transactions.py)\<close>

definition category_icons :: "(string \<times> string \<times> string) list" where
  "category_icons =
     [(''FOOD_AND_DRINK'', ''fork.knife'', ''#FF6B6B''),
      (''TRANSPORTATION'', ''car.fill'', ''#4ECDC4''),
      (''SHOPPING'', ''bag.fill'', ''#45B7D1''),
      (''ENTERTAINMENT'', ''tv.fill'', ''#96CEB4''),
      (''TRAVEL'', ''airplane'', ''#FFEAA7''),
      (''HEALTHCARE'', ''heart.fill'', ''#DDA0DD''),
      (''PERSONAL_CARE'', ''person.fill'', ''#98D8C8''),
      (''GENERAL_SERVICES'', ''wrench.fill'', ''#F7DC6F''),
      (''GOVERNMENT_AND_NON_PROFIT'', ''building.columns.fill'', ''#BB8FCE''),
      (''TRANSFER_IN'', ''arrow.down.circle.fill'', ''#82E0AA''),
      (''TRANSFER_OUT'', ''arrow.up.circle.fill'', ''#F1948A''),
      (''INCOME'', ''dollarsign.circle.fill'', ''#82E0AA''),
      (''LOAN_PAYMENTS'', ''creditcard.fill'', ''#F5B041''),
      (''BANK_FEES'', ''exclamationmark.circle.fill'', ''#E74C3C''),
      (''RENT_AND_UTILITIES'', ''house.fill'', ''#5DADE2'')]"

definition empty_pfc :: pfc where
  "empty_pfc = \<lparr>primary = Absent, detailed = Absent\<rparr>"

definition empty_location :: location where
  "empty_location = \<lparr>city = Absent, region = Absent, country = Absent\<rparr>"

text \<open>
  The default of \<open>pfc.get("primary", ...)\<close>: the first entry of a non-empty legacy category
  list, else \<open>"Uncategorized"\<close>.
\<close>

definition legacy_category :: "plaid_txn \<Rightarrow> string" where
  "legacy_category plaid_txn =
     (case get_attr (p_category plaid_txn) of
        Some (c # cs) \<Rightarrow> c
      | _ \<Rightarrow> ''Uncategorized'')"

text \<open>The text \<open>f"TXN#{x}"\<close> puts for \<open>x\<close>.\<close>

definition fmt :: "string option \<Rightarrow> string" where
  "fmt x = (case x of None \<Rightarrow> ''None'' | Some s \<Rightarrow> s)"

text \<open>The lookup in \<open>category_icons\<close> under the upper-cased category name.\<close>

definition icon_and_color :: "string \<Rightarrow> string \<times> string" where
  "icon_and_color cat_name =
     (case map_of category_icons (str_upper cat_name) of
        None \<Rightarrow> (''questionmark.circle.fill'', ''#95A5A6'')
      | Some ic \<Rightarrow> ic)"

text \<open>
  The dictionary \<open>map_plaid_transaction\<close> returns, from the record and from what was
  computed before: the category name and detail, the amount read, the location read, the
  two identifiers drawn and the two timestamps.
\<close>

definition txn_item ::
  "plaid_txn \<Rightarrow> string \<Rightarrow> string \<Rightarrow> string \<Rightarrow> string option \<Rightarrow> rat \<Rightarrow> location
     \<Rightarrow> string \<Rightarrow> string \<Rightarrow> string \<Rightarrow> string \<Rightarrow> txn" where
  "txn_item plaid_txn uid aid cat_name cat_detailed amt loc id1 id2 ts1 ts2 =
     \<lparr>pk = ''ACCOUNT#'' @ aid,
      sk = ''TXN#'' @ fmt (get_or (p_transaction_id plaid_txn) id1),
      id = stored (get_or (p_transaction_id plaid_txn) id2),
      user_id = Val uid,
      account_id = Val aid,
      plaid_transaction_id = stored (get_attr (p_transaction_id plaid_txn)),
      amount = Val \<bar>amt\<bar>,
      is_debit = Val (amt > 0),
      description = stored (get_or (p_name plaid_txn) ''Unknown Transaction''),
      merchant_name = stored (get_attr (p_merchant_name plaid_txn)),
      date = stored (get_attr (p_date plaid_txn)),
      datetime_str = stored (get_attr (p_datetime plaid_txn)),
      pending = stored (get_or (p_pending plaid_txn) False),
      category_name = Val (str_title (replace_underscores cat_name)),
      category_detailed = stored cat_detailed,
      category_icon = Val (fst (icon_and_color cat_name)),
      category_color = Val (snd (icon_and_color cat_name)),
      payment_channel = stored (get_attr (p_payment_channel plaid_txn)),
      location = Val \<lparr>loc_city = stored (get_attr (city loc)),
                      loc_region = stored (get_attr (region loc)),
                      loc_country = stored (get_attr (country loc))\<rparr>,
      created_at = Val ts1,
      synced_at = Val ts2\<rparr>"

text \<open>
  \<open>map_plaid_transaction\<close>. The default argument \<open>generate_id()\<close> of both
  \<open>plaid_txn.get('transaction_id', generate_id())\<close> is evaluated whether or not the record
  has the key, so every call draws two identifiers, the first for \<open>sk\<close> and the second for
  \<open>id\<close>. A \<open>None\<close> where the code calls a method or \<open>abs\<close> raises: for the category
  fields before the identifiers are drawn, for the amount and the location after.
\<close>

definition map_plaid_transaction ::
  "env \<Rightarrow> pylib \<Rightarrow> plaid_txn \<Rightarrow> string \<Rightarrow> string \<Rightarrow> txn prog" where
  "map_plaid_transaction env lib plaid_txn uid aid =
     (case get_or (p_personal_finance_category plaid_txn) empty_pfc of
        None \<Rightarrow> raise (AttributeError, ''NoneType object has no attribute get'')
      | Some pfc \<Rightarrow>
     (case get_or (primary pfc) (legacy_category plaid_txn) of
        None \<Rightarrow> raise (AttributeError, ''NoneType object has no attribute upper'')
      | Some cat_name \<Rightarrow>
         and_then (generate_id env) (\<lambda>id1.
         and_then (generate_id env) (\<lambda>id2.
         (case get_or (p_amount plaid_txn) 0 of
            None \<Rightarrow> raise (TypeError, ''bad operand type for abs(): NoneType'')
          | Some amt \<Rightarrow>
         (case get_or (p_location plaid_txn) empty_location of
            None \<Rightarrow> raise (AttributeError, ''NoneType object has no attribute get'')
          | Some loc \<Rightarrow>
             and_then (get_timestamp env lib) (\<lambda>ts1.
             and_then (get_timestamp env lib) (\<lambda>ts2.
             ret (txn_item plaid_txn uid aid cat_name (get_or (detailed pfc) [])
                    amt loc id1 id2 ts1 ts2)))))))))"

text \<open>The amount the mapping reads: \<open>plaid_txn.get("amount", 0)\<close>.\<close>

definition source_amount :: "plaid_txn \<Rightarrow> rat" where
  "source_amount plaid_txn = (case p_amount plaid_txn of Val a \<Rightarrow> a | _ \<Rightarrow> 0)"

text \<open>A record none of whose fields is \<open>None\<close> where the mapping cannot take it.\<close>

definition mappable :: "plaid_txn \<Rightarrow> bool" where
  "mappable plaid_txn \<longleftrightarrow>
     p_amount plaid_txn \<noteq> Null \<and> p_location plaid_txn \<noteq> Null \<and>
     (case p_personal_finance_category plaid_txn of
        Absent \<Rightarrow> True | Null \<Rightarrow> False | Val pfc \<Rightarrow> primary pfc \<noteq> Null)"


section \<open>Responses (response.py) and request validation (validation.py)\<close>

datatype 'a response = Ok nat 'a | Err nat string string

definition success :: "'a \<Rightarrow> 'a response" where
  "success body = Ok 200 body"

definition created :: "'a \<Rightarrow> 'a response" where
  "created body = Ok 201 body"

definition bad_request :: "string \<Rightarrow> 'a response" where
  "bad_request message = Err 400 ''VALIDATION_ERROR'' message"

definition not_found :: "string \<Rightarrow> 'a response" where
  "not_found message = Err 404 ''NOT_FOUND'' message"

definition internal_error :: "string \<Rightarrow> 'a response" where
  "internal_error message = Err 500 ''INTERNAL_ERROR'' message"

definition service_unavailable :: "string \<Rightarrow> 'a response" where
  "service_unavailable message = Err 503 ''SERVICE_UNAVAILABLE'' message"

fun status_code :: "'a response \<Rightarrow> nat" where
  "status_code (Ok c b) = c"
| "status_code (Err c k m) = c"

definition is_hex :: "char \<Rightarrow> bool" where
  "is_hex c \<longleftrightarrow> c \<in> set ''0123456789abcdef''"

text \<open>
  \<open>validate_uuid\<close>: \<open>re.match\<close> of the pattern on the lowered text; the final \<open>$\<close> also
  matches before one trailing newline.
\<close>

definition uuid_shape :: "string \<Rightarrow> bool" where
  "uuid_shape s \<longleftrightarrow>
     length s = 36 \<and>
     list_all is_hex (take 8 s) \<and> s ! 8 = CHR ''-'' \<and>
     list_all is_hex (take 4 (drop 9 s)) \<and> s ! 13 = CHR ''-'' \<and>
     list_all is_hex (take 4 (drop 14 s)) \<and> s ! 18 = CHR ''-'' \<and>
     list_all is_hex (take 4 (drop 19 s)) \<and> s ! 23 = CHR ''-'' \<and>
     list_all is_hex (drop 24 s)"

definition validate_uuid :: "string \<Rightarrow> bool" where
  "validate_uuid v =
     (let s = str_lower v
      in uuid_shape s \<or> (s \<noteq> [] \<and> last s = CHR 0x0A \<and> uuid_shape (butlast s)))"

text \<open>\<open>d[k]\<close>.\<close>

definition subscript :: "string \<Rightarrow> 'a attr \<Rightarrow> exn + 'a option" where
  "subscript k a = (case a of Absent \<Rightarrow> Inl (KeyError, k) | Null \<Rightarrow> Inr None | Val v \<Rightarrow> Inr (Some v))"

text \<open>\<open>for x in d.get(k, [])\<close>: iterating \<open>None\<close> raises.\<close>

definition iterate :: "'a list attr \<Rightarrow> exn + 'a list" where
  "iterate a =
     (case get_or a [] of
        None \<Rightarrow> Inl (TypeError, ''NoneType object is not iterable'')
      | Some xs \<Rightarrow> Inr xs)"

text \<open>Truthiness of an optional string: \<open>None\<close> and the empty string are false.\<close>

definition truthy :: "string option \<Rightarrow> bool" where
  "truthy s \<longleftrightarrow> (case s of None \<Rightarrow> False | Some t \<Rightarrow> t \<noteq> [])"

section \<open>The document store (database.py)\<close>

text \<open>
  One call to the store: it fails as the oracle says, and then changes nothing, or it has
  its effect. \<open>put_item\<close> overwrites the item under the item's key, \<open>delete_item\<close> of a
  missing key is a no-op, \<open>update_item\<close> sets the given attributes on the item under the
  key and creates the item when there is none.
\<close>

definition db_call :: "env \<Rightarrow> (world \<Rightarrow> 'a \<times> world) \<Rightarrow> 'a prog" where
  "db_call env effect =
     (\<lambda>w. let w1 = w\<lparr>db_calls := Suc (db_calls w)\<rparr>
          in case db_fault env (db_calls w) of
               Some e \<Rightarrow> (Inl e, w1)
             | None \<Rightarrow> (case effect w1 of (x, w2) \<Rightarrow> (Inr x, w2)))"

definition txn_put :: "env \<Rightarrow> txn \<Rightarrow> unit prog" where
  "txn_put env item =
     db_call env (\<lambda>w. ((), w\<lparr>transactions_table :=
                               (transactions_table w)((pk item, sk item) \<mapsto> item)\<rparr>))"

definition txn_delete :: "env \<Rightarrow> string \<Rightarrow> string \<Rightarrow> unit prog" where
  "txn_delete env p s =
     db_call env (\<lambda>w. ((), w\<lparr>transactions_table := (transactions_table w)((p, s) := None)\<rparr>))"

definition get_account :: "env \<Rightarrow> string \<Rightarrow> string \<Rightarrow> account option prog" where
  "get_account env uid aid =
     db_call env (\<lambda>w. (accounts_table w (''USER#'' @ uid, ''ACCOUNT#'' @ aid), w))"

definition blank_account :: account where
  "blank_account = \<lparr>a_id = Absent, a_plaid_access_token = Absent, a_plaid_account_id = Absent,
                     a_plaid_sync_cursor = Absent, a_last_synced = Absent\<rparr>"

definition account_update :: "env \<Rightarrow> string \<Rightarrow> string \<Rightarrow> (account \<Rightarrow> account) \<Rightarrow> unit prog" where
  "account_update env p s updates =
     db_call env (\<lambda>w. ((), w\<lparr>accounts_table :=
        (accounts_table w)((p, s) \<mapsto>
           updates (case accounts_table w (p, s) of None \<Rightarrow> blank_account | Some a \<Rightarrow> a))\<rparr>))"


section \<open>The transaction sync handler (sync\_transactions.py)\<close>

definition get_plaid_host :: "string option \<Rightarrow> string" where
  "get_plaid_host environment_name =
     (case environment_name of
        None \<Rightarrow> ''https://sandbox.plaid.com''
      | Some e \<Rightarrow>
         (case map_of [(''sandbox'', ''https://sandbox.plaid.com''),
                       (''development'', ''https://development.plaid.com''),
                       (''production'', ''https://production.plaid.com'')] e of
            None \<Rightarrow> ''https://sandbox.plaid.com''
          | Some h \<Rightarrow> h))"

text \<open>
  \<open>sync_transactions_from_plaid\<close>, called with the default \<open>count = 100\<close>; the cursor goes
  into the payload only when it is a non-empty string (\<open>Absent\<close> in the request otherwise).
\<close>

definition sync_transactions_from_plaid ::
  "env \<Rightarrow> string \<Rightarrow> plaid_creds \<Rightarrow> string option \<Rightarrow> exn + sync_response" where
  "sync_transactions_from_plaid env access_token creds cursor =
     (let plaid_host = get_plaid_host (get_or (environment creds) ''sandbox'')
      in case subscript ''client_id'' (client_id creds) of
           Inl e \<Rightarrow> Inl e
         | Inr cid \<Rightarrow>
        (case subscript ''secret'' (secret creds) of
           Inl e \<Rightarrow> Inl e
         | Inr sec \<Rightarrow>
             transactions_sync env
               \<lparr>sr_host = plaid_host, sr_client_id = cid, sr_secret = sec,
                sr_access_token = access_token, sr_count = min 100 500,
                sr_cursor = (if truthy cursor then stored cursor else Absent)\<rparr>))"

definition get_transactions_legacy ::
  "env \<Rightarrow> string \<Rightarrow> plaid_creds \<Rightarrow> string \<Rightarrow> string \<Rightarrow> string option list
     \<Rightarrow> exn + get_response" where
  "get_transactions_legacy env access_token creds start_date end_date account_ids =
     (let plaid_host = get_plaid_host (get_or (environment creds) ''sandbox'')
      in case subscript ''client_id'' (client_id creds) of
           Inl e \<Rightarrow> Inl e
         | Inr cid \<Rightarrow>
        (case subscript ''secret'' (secret creds) of
           Inl e \<Rightarrow> Inl e
         | Inr sec \<Rightarrow>
             transactions_get env
               \<lparr>gr_host = plaid_host, gr_client_id = cid, gr_secret = sec,
                gr_access_token = access_token, gr_start_date = start_date,
                gr_end_date = end_date, gr_account_ids = account_ids\<rparr>))"

record event =
  ev_user_id :: string
  ev_account_id :: "string option"
  ev_use_sync :: "string attr"
  ev_days :: "string attr"

record sync_result =
  res_synced :: nat
  res_added :: nat
  res_modified :: nat
  res_removed :: nat
  res_has_more :: "bool option"
  res_cursor :: "string option"

text \<open>
  The loops over \<open>added\<close> and over \<open>modified\<close> (one body, two counters): a record is
  mapped and put when its account id equals the account's linked one. The result is the
  counter.
\<close>

fun upsert_matching ::
  "env \<Rightarrow> pylib \<Rightarrow> account \<Rightarrow> string \<Rightarrow> string \<Rightarrow> plaid_txn list \<Rightarrow> nat \<Rightarrow> nat prog" where
  "upsert_matching env lib acct uid aid [] n = ret n"
| "upsert_matching env lib acct uid aid (plaid_txn # rest) n =
     (if get_attr (p_account_id plaid_txn) = get_attr (a_plaid_account_id acct)
      then and_then (map_plaid_transaction env lib plaid_txn uid aid) (\<lambda>txn_data.
           and_then (txn_put env txn_data) (\<lambda>_.
           upsert_matching env lib acct uid aid rest (Suc n)))
      else upsert_matching env lib acct uid aid rest n)"

fun delete_removed :: "env \<Rightarrow> string \<Rightarrow> removed_txn list \<Rightarrow> nat \<Rightarrow> nat prog" where
  "delete_removed env aid [] n = ret n"
| "delete_removed env aid (plaid_txn # rest) n =
     (case get_attr (r_transaction_id plaid_txn) of
        None \<Rightarrow> delete_removed env aid rest n
      | Some txn_id \<Rightarrow>
          if txn_id \<noteq> []
          then and_then (txn_delete env (''ACCOUNT#'' @ aid) (''TXN#'' @ txn_id)) (\<lambda>_.
               delete_removed env aid rest (Suc n))
          else delete_removed env aid rest n)"

text \<open>The three loops of the incremental branch, on one aggregator response.\<close>

definition process_page ::
  "env \<Rightarrow> pylib \<Rightarrow> account \<Rightarrow> string \<Rightarrow> string \<Rightarrow> sync_response \<Rightarrow> (nat \<times> nat \<times> nat) prog" where
  "process_page env lib acct uid aid sync_response =
     and_then (lift (iterate (added sync_response))) (\<lambda>adds.
     and_then (upsert_matching env lib acct uid aid adds 0) (\<lambda>n_added.
     and_then (lift (iterate (modified sync_response))) (\<lambda>mods.
     and_then (upsert_matching env lib acct uid aid mods 0) (\<lambda>n_modified.
     and_then (lift (iterate (removed sync_response))) (\<lambda>rems.
     and_then (delete_removed env aid rems 0) (\<lambda>n_removed.
     ret (n_added, n_modified, n_removed)))))))"

text \<open>The body of the \<open>try\<close> of the incremental branch.\<close>

definition sync_incremental ::
  "env \<Rightarrow> pylib \<Rightarrow> account \<Rightarrow> string \<Rightarrow> string \<Rightarrow> string \<Rightarrow> plaid_creds \<Rightarrow> sync_result prog" where
  "sync_incremental env lib acct uid aid access_token creds =
     (let cursor = get_attr (a_plaid_sync_cursor acct)
      in and_then (lift (sync_transactions_from_plaid env access_token creds cursor))
           (\<lambda>sync_response.
         and_then (process_page env lib acct uid aid sync_response)
           (\<lambda>(n_added, n_modified, n_removed).
         let new_cursor = get_attr (next_cursor sync_response);
             more = get_or (has_more sync_response) False
         in and_then (get_timestamp env lib) (\<lambda>ts.
            and_then (account_update env (''USER#'' @ uid) (''ACCOUNT#'' @ aid)
                        (\<lambda>a. a\<lparr>a_plaid_sync_cursor := stored new_cursor,
                                a_last_synced := Val ts\<rparr>)) (\<lambda>_.
            ret \<lparr>res_synced = n_added + n_modified, res_added = n_added,
                 res_modified = n_modified, res_removed = n_removed,
                 res_has_more = more, res_cursor = new_cursor\<rparr>)))))"

text \<open>The incremental branch: \<open>try\<close> \<dots> \<open>except Exception\<close>, then the final \<open>success\<close>.\<close>

definition sync_branch ::
  "env \<Rightarrow> pylib \<Rightarrow> account \<Rightarrow> string \<Rightarrow> string \<Rightarrow> string \<Rightarrow> plaid_creds
     \<Rightarrow> world \<Rightarrow> sync_result response \<times> world" where
  "sync_branch env lib acct uid aid access_token creds w =
     (case sync_incremental env lib acct uid aid access_token creds w of
        (Inl e, w') \<Rightarrow> (service_unavailable (''Failed to sync transactions: '' @ snd e), w')
      | (Inr stats, w') \<Rightarrow> (success stats, w'))"

text \<open>The loop of the legacy branch: every returned record is mapped and put.\<close>

fun put_all ::
  "env \<Rightarrow> pylib \<Rightarrow> string \<Rightarrow> string \<Rightarrow> plaid_txn list \<Rightarrow> nat \<Rightarrow> nat prog" where
  "put_all env lib uid aid [] n = ret n"
| "put_all env lib uid aid (plaid_txn # rest) n =
     and_then (map_plaid_transaction env lib plaid_txn uid aid) (\<lambda>txn_data.
     and_then (txn_put env txn_data) (\<lambda>_.
     put_all env lib uid aid rest (Suc n)))"

text \<open>
  The date range of the legacy branch, \<open>[utcnow() - timedelta(days), utcnow()]\<close> as two
  \<open>%Y-%m-%d\<close> strings (start, end); the clock is read twice, first for the end.
\<close>

definition legacy_date_range :: "env \<Rightarrow> pylib \<Rightarrow> int \<Rightarrow> (string \<times> string) prog" where
  "legacy_date_range env lib days =
     and_then (read_clock env) (\<lambda>now1.
     and_then (read_clock env) (\<lambda>now2.
     and_then (lift (timedelta_days days)) (\<lambda>delta.
     and_then (lift (datetime_add now2 (- delta))) (\<lambda>start.
     ret (strftime_ymd lib start, strftime_ymd lib now1)))))"

definition sync_legacy ::
  "env \<Rightarrow> pylib \<Rightarrow> account \<Rightarrow> string \<Rightarrow> string \<Rightarrow> string \<Rightarrow> plaid_creds
     \<Rightarrow> string \<Rightarrow> string \<Rightarrow> sync_result prog" where
  "sync_legacy env lib acct uid aid access_token creds start_date end_date =
     and_then (lift (get_transactions_legacy env access_token creds start_date end_date
                       [get_attr (a_plaid_account_id acct)])) (\<lambda>txn_response.
     and_then (lift (iterate (transactions txn_response))) (\<lambda>txns.
     and_then (put_all env lib uid aid txns 0) (\<lambda>n_added.
     and_then (get_timestamp env lib) (\<lambda>ts.
     and_then (account_update env (''USER#'' @ uid) (''ACCOUNT#'' @ aid)
                 (\<lambda>a. a\<lparr>a_last_synced := Val ts\<rparr>)) (\<lambda>_.
     ret \<lparr>res_synced = n_added, res_added = n_added, res_modified = 0, res_removed = 0,
          res_has_more = Some False, res_cursor = None\<rparr>)))))"

definition legacy_branch ::
  "env \<Rightarrow> pylib \<Rightarrow> account \<Rightarrow> string \<Rightarrow> string \<Rightarrow> string \<Rightarrow> plaid_creds \<Rightarrow> int
     \<Rightarrow> sync_result response prog" where
  "legacy_branch env lib acct uid aid access_token creds days =
     and_then (legacy_date_range env lib days) (\<lambda>(start_date, end_date) w.
       case sync_legacy env lib acct uid aid access_token creds start_date end_date w of
         (Inl e, w') \<Rightarrow> (Inr (service_unavailable (''Failed to fetch transactions: '' @ snd e)), w')
       | (Inr stats, w') \<Rightarrow> (Inr (success stats), w'))"

text \<open>
  The day count of the request: \<open>days = int(get_query_param(event, "days", "30"))\<close>, then
  \<open>days = min(days, 730)\<close>. \<open>int\<close> is the library's; of \<open>None\<close> it raises \<open>TypeError\<close>.
\<close>

definition effective_days :: "pylib \<Rightarrow> string attr \<Rightarrow> exn + int" where
  "effective_days lib days_param =
     (case get_or days_param ''30'' of
        None \<Rightarrow> Inl (TypeError, ''int() argument must be a string or a real number'')
      | Some s \<Rightarrow>
         (case int_str lib s of
            None \<Rightarrow> Inl (ValueError, ''invalid literal for int() with base 10'')
          | Some days \<Rightarrow> Inr (min days 730)))"

text \<open>
  \<open>use_sync = get_query_param(event, "use_sync", "true").lower() == "true"\<close>, which is
  evaluated before the day count.
\<close>

definition use_sync_of :: "string attr \<Rightarrow> exn + bool" where
  "use_sync_of param =
     (case get_or param ''true'' of
        None \<Rightarrow> Inl (AttributeError, ''NoneType object has no attribute lower'')
      | Some s \<Rightarrow> Inr (str_lower s = ''true''))"

text \<open>The handler from the access-token check on, for the account it has read.\<close>

definition sync_account ::
  "env \<Rightarrow> pylib \<Rightarrow> event \<Rightarrow> account \<Rightarrow> string \<Rightarrow> string \<Rightarrow> sync_result response prog" where
  "sync_account env lib ev acct uid aid =
     (if \<not> truthy (get_attr (a_plaid_access_token acct))
      then ret (bad_request ''Account is not linked to Plaid'')
      else
        (case get_secret_value env of
           Inl e \<Rightarrow> ret (service_unavailable ''Transaction sync service temporarily unavailable'')
         | Inr creds \<Rightarrow>
             and_then (lift (use_sync_of (ev_use_sync ev))) (\<lambda>use_sync.
             and_then (lift (effective_days lib (ev_days ev))) (\<lambda>days.
               if use_sync
               then (\<lambda>w. (case sync_branch env lib acct uid aid
                                   (the (get_attr (a_plaid_access_token acct))) creds w of
                             (r, w') \<Rightarrow> (Inr r, w')))
               else legacy_branch env lib acct uid aid
                      (the (get_attr (a_plaid_access_token acct))) creds days))))"

definition handler_body :: "env \<Rightarrow> pylib \<Rightarrow> event \<Rightarrow> sync_result response prog" where
  "handler_body env lib ev =
     (if \<not> truthy (ev_account_id ev) then ret (bad_request ''Account ID is required'')
      else if \<not> validate_uuid (the (ev_account_id ev))
      then ret (bad_request ''Invalid account ID format'')
      else and_then (get_account env (ev_user_id ev) (the (ev_account_id ev))) (\<lambda>found.
             (case found of
                None \<Rightarrow> ret (not_found ''Account not found'')
              | Some acct \<Rightarrow>
                  sync_account env lib ev acct (ev_user_id ev) (the (ev_account_id ev)))))"

text \<open>The handler: the outer \<open>except Exception\<close> turns any other exception into a 500.\<close>

definition handler :: "env \<Rightarrow> pylib \<Rightarrow> event \<Rightarrow> world \<Rightarrow> sync_result response \<times> world" where
  "handler env lib ev w =
     (case handler_body env lib ev w of
        (Inl e, w') \<Rightarrow> (internal_error ''Failed to sync transactions'', w')
      | (Inr r, w') \<Rightarrow> (r, w'))"

section \<open>Analytics (get\_cash\_flow.py, get\_spending\_by\_category.py, get\_budget\_comparison.py)\<close>

text \<open>
  The repositories hand the handlers floats (\<open>decimal_to_float\<close>). A float is a rational
  number; comparisons and \<open>abs\<close> are exact on floats, while \<open>+\<close>, \<open>-\<close>, \<open>*\<close>, \<open>/\<close>, \<open>sum\<close> and
  \<open>round\<close> round their results and are parameters of the model (\<open>float_add\<close>, ... of
  \<open>pylib\<close>). Two facts about them are built in: \<open>sum\<close> of nothing is 0, and \<open>round(0, n)\<close>
  is 0.
\<close>

definition py_sum :: "pylib \<Rightarrow> rat list \<Rightarrow> rat" where
  "py_sum lib xs = (if xs = [] then 0 else float_sum lib xs)"

definition py_round :: "pylib \<Rightarrow> rat \<Rightarrow> nat \<Rightarrow> rat" where
  "py_round lib x n = (if x = 0 then 0 else float_round lib x n)"

text \<open>
  Rounding an exact value to the nearest multiple of \<open>10\<^sup>-\<^sup>n\<close>, a tie to the even one:
  \<open>round(x, n)\<close> of a \<open>Decimal\<close>.
\<close>

definition round_half_even :: "rat \<Rightarrow> nat \<Rightarrow> rat" where
  "round_half_even x n =
     (let scaled = x * 10 ^ n; below = \<lfloor>scaled\<rfloor>; rest = scaled - of_int below
      in of_int (if rest < 1 / 2 then below
                 else if 1 / 2 < rest then below + 1
                 else if even below then below else below + 1) / 10 ^ n)"

text \<open>
  A \<open>defaultdict(float)\<close> keeps its keys in the order they were first used. \<open>d[k] += v\<close>
  adds to the entry of \<open>k\<close>, or appends \<open>k\<close> with \<open>0 + v\<close>.
\<close>

fun add_to :: "pylib \<Rightarrow> ('k \<times> rat) list \<Rightarrow> 'k \<Rightarrow> rat \<Rightarrow> ('k \<times> rat) list" where
  "add_to lib [] k v = [(k, float_add lib 0 v)]"
| "add_to lib ((k', x) # d) k v =
     (if k' = k then (k', float_add lib x v) # d else (k', x) # add_to lib d k v)"

text \<open>\<open>d.get(k, 0)\<close> on such a dictionary.\<close>

definition bucket :: "('k \<times> rat) list \<Rightarrow> 'k \<Rightarrow> rat" where
  "bucket d k = (case map_of d k of None \<Rightarrow> 0 | Some v \<Rightarrow> v)"

subsection \<open>Cash flow\<close>

text \<open>
  The period key of a date string that \<open>strptime\<close> accepts: the string itself, the Monday
  of its week (\<open>date - timedelta(days=date.weekday())\<close>; day 0 was a Monday), or its
  year and month. Any granularity other than \<open>daily\<close> and \<open>weekly\<close> is monthly.
\<close>

definition period_key :: "pylib \<Rightarrow> string \<Rightarrow> string \<Rightarrow> string option" where
  "period_key lib granularity date_str =
     (case strptime_ymd lib date_str of
        None \<Rightarrow> None
      | Some d \<Rightarrow>
          Some (if granularity = ''daily'' then date_str
                else if granularity = ''weekly''
                then strftime_ymd lib (d - ((d div DAY) mod 7) * DAY)
                else strftime_ym lib d))"

text \<open>
  The loop of \<open>aggregate_by_granularity\<close>, with the two dictionaries as accumulators. A
  transaction whose date is empty or does not parse is skipped; a date or an amount that
  is \<open>None\<close> raises where the code slices or compares it.
\<close>

fun aggregate_loop ::
  "pylib \<Rightarrow> string \<Rightarrow> txn list \<Rightarrow> (string \<times> rat) list \<Rightarrow> (string \<times> rat) list
     \<Rightarrow> exn + (string \<times> rat) list \<times> (string \<times> rat) list" where
  "aggregate_loop lib granularity [] inflows outflows = Inr (inflows, outflows)"
| "aggregate_loop lib granularity (txn # rest) inflows outflows =
     (case get_or (date txn) [] of
        None \<Rightarrow> Inl (TypeError, ''NoneType object is not subscriptable'')
      | Some d \<Rightarrow>
          if take 10 d = [] then aggregate_loop lib granularity rest inflows outflows
          else (case period_key lib granularity (take 10 d) of
                  None \<Rightarrow> aggregate_loop lib granularity rest inflows outflows
                | Some key \<Rightarrow>
                   (case get_or (amount txn) 0 of
                      None \<Rightarrow> Inl (TypeError, ''>= not supported between NoneType and int'')
                    | Some a \<Rightarrow>
                        if a \<ge> 0
                        then aggregate_loop lib granularity rest (add_to lib inflows key a)
                               outflows
                        else aggregate_loop lib granularity rest inflows
                               (add_to lib outflows key \<bar>a\<bar>))))"

definition aggregate_by_granularity ::
  "pylib \<Rightarrow> txn list \<Rightarrow> string
     \<Rightarrow> exn + (string \<times> rat) list \<times> (string \<times> rat) list" where
  "aggregate_by_granularity lib txns granularity =
     aggregate_loop lib granularity txns [] []"

text \<open>
  The handler from the aggregation on, for the transactions it has collected: the two
  dictionaries, the totals and the net flow as the handler computes them.
\<close>

record cash_flow_rollup =
  cf_inflows :: "(string \<times> rat) list"
  cf_outflows :: "(string \<times> rat) list"
  cf_total_inflow :: rat
  cf_total_outflow :: rat
  cf_net_flow :: rat

definition cash_flow :: "pylib \<Rightarrow> txn list \<Rightarrow> string \<Rightarrow> exn + cash_flow_rollup" where
  "cash_flow lib all_transactions granularity =
     (case aggregate_by_granularity lib all_transactions granularity of
        Inl e \<Rightarrow> Inl e
      | Inr (inflows, outflows) \<Rightarrow>
          (let total_inflow = py_sum lib (map snd inflows);
               total_outflow = py_sum lib (map snd outflows);
               net_flow = float_sub lib total_inflow total_outflow
           in Inr \<lparr>cf_inflows = inflows, cf_outflows = outflows,
                   cf_total_inflow = total_inflow, cf_total_outflow = total_outflow,
                   cf_net_flow = net_flow\<rparr>))"

text \<open>The response body: the dictionaries sorted by key, every amount rounded to 2 places.\<close>

record cash_flow_body =
  body_inflows :: "(string \<times> rat) list"
  body_outflows :: "(string \<times> rat) list"
  body_net_flow :: rat
  body_total_inflow :: rat
  body_total_outflow :: rat

definition format_cash_flow :: "pylib \<Rightarrow> cash_flow_rollup \<Rightarrow> cash_flow_body" where
  "format_cash_flow lib r =
     \<lparr>body_inflows = map (\<lambda>(k, v). (k, py_round lib v 2)) (sort_key fst (cf_inflows r)),
      body_outflows = map (\<lambda>(k, v). (k, py_round lib v 2)) (sort_key fst (cf_outflows r)),
      body_net_flow = py_round lib (cf_net_flow r) 2,
      body_total_inflow = py_round lib (cf_total_inflow r) 2,
      body_total_outflow = py_round lib (cf_total_outflow r) 2\<rparr>"

text \<open>
  The period key and the amount with which a transaction enters a dictionary, if it does;
  the entries of a list of transactions with a non-negative amount, and those with a
  negative amount, as magnitudes; the amounts of the entries with a given key, in order;
  and what adding them up one after the other from 0 gives.
\<close>

definition bucketed :: "pylib \<Rightarrow> string \<Rightarrow> txn \<Rightarrow> (string \<times> rat) option" where
  "bucketed lib granularity txn =
     (case get_or (date txn) [] of
        None \<Rightarrow> None
      | Some d \<Rightarrow>
          if take 10 d = [] then None
          else (case period_key lib granularity (take 10 d) of
                  None \<Rightarrow> None
                | Some key \<Rightarrow> map_option (Pair key) (get_or (amount txn) 0)))"

definition inflow_parts :: "pylib \<Rightarrow> string \<Rightarrow> txn list \<Rightarrow> (string \<times> rat) list" where
  "inflow_parts lib granularity txns =
     filter (\<lambda>(k, a). a \<ge> 0) (List.map_filter (bucketed lib granularity) txns)"

definition outflow_parts :: "pylib \<Rightarrow> string \<Rightarrow> txn list \<Rightarrow> (string \<times> rat) list" where
  "outflow_parts lib granularity txns =
     map (\<lambda>(k, a). (k, \<bar>a\<bar>))
       (filter (\<lambda>(k, a). a < 0) (List.map_filter (bucketed lib granularity) txns))"

definition amounts_at :: "('k \<times> rat) list \<Rightarrow> 'k \<Rightarrow> rat list" where
  "amounts_at parts k = map snd (filter (\<lambda>(k', a). k' = k) parts)"

definition added_up :: "pylib \<Rightarrow> rat list \<Rightarrow> rat" where
  "added_up lib xs = foldl (float_add lib) 0 xs"

text \<open>
  A dictionary \<open>d'\<close> is \<open>d\<close> grown by a list of entries: under each key it holds what \<open>d\<close>
  held with the entries of that key added in order, its keys stay distinct, and without
  rounding its sum has grown by the sum of the entries.
\<close>

definition grown :: "pylib \<Rightarrow> ('k \<times> rat) list \<Rightarrow> ('k \<times> rat) list \<Rightarrow> ('k \<times> rat) list \<Rightarrow> bool" where
  "grown lib d parts d' \<longleftrightarrow>
     (\<forall>k. map_of d' k =
            (if amounts_at parts k = [] then map_of d k
             else Some (foldl (float_add lib) (bucket d k) (amounts_at parts k)))) \<and>
     (distinct (map fst d) \<longrightarrow> distinct (map fst d')) \<and>
     (float_add lib = (+) \<longrightarrow>
        sum_list (map snd d') = sum_list (map snd d) + sum_list (map snd parts))"

text \<open>Arithmetic without rounding.\<close>

definition exact_arithmetic :: "pylib \<Rightarrow> bool" where
  "exact_arithmetic lib \<longleftrightarrow>
     float_add lib = (+) \<and> float_sub lib = (-) \<and> float_mul lib = (*) \<and>
     float_div lib = (/) \<and> float_sum lib = sum_list \<and> float_round lib = round_half_even"

subsection \<open>Spending by category\<close>

definition CATEGORY_CONFIG :: "(string \<times> string \<times> string) list" where
  "CATEGORY_CONFIG =
     [(''Food & Dining'', ''fork.knife'', ''#FF6B6B''),
      (''Shopping'', ''bag'', ''#4ECDC4''),
      (''Transportation'', ''car'', ''#45B7D1''),
      (''Entertainment'', ''film'', ''#96CEB4''),
      (''Bills & Utilities'', ''doc.text'', ''#FFEAA7''),
      (''Health'', ''heart'', ''#FF8A5B''),
      (''Travel'', ''airplane'', ''#A8E6CF''),
      (''Education'', ''book'', ''#DDA0DD''),
      (''Personal Care'', ''person'', ''#FFB6C1''),
      (''Other'', ''ellipsis.circle'', ''#B0B0B0'')]"

text \<open>
  \<open>category_spending[category]["amount"] += abs(amount)\<close> and \<open>["count"] += 1\<close> on a
  \<open>defaultdict\<close> of \<open>{"amount": 0, "count": 0}\<close>. A category is a string or \<open>None\<close>.
\<close>

fun count_in ::
  "pylib \<Rightarrow> ('k \<times> rat \<times> nat) list \<Rightarrow> 'k \<Rightarrow> rat \<Rightarrow> ('k \<times> rat \<times> nat) list" where
  "count_in lib [] k v = [(k, float_add lib 0 v, 0 + 1)]"
| "count_in lib ((k', x, n) # d) k v =
     (if k' = k then (k', float_add lib x v, n + 1) # d else (k', x, n) # count_in lib d k v)"

text \<open>
  The loop of the spending handler over the transactions of the user's accounts: the date
  is sliced first, then a transaction with a non-negative amount is skipped, then one
  outside the range.
\<close>

fun spending_loop ::
  "pylib \<Rightarrow> string \<Rightarrow> string \<Rightarrow> txn list \<Rightarrow> (string option \<times> rat \<times> nat) list
     \<Rightarrow> exn + (string option \<times> rat \<times> nat) list" where
  "spending_loop lib start_date end_date [] category_spending = Inr category_spending"
| "spending_loop lib start_date end_date (txn # rest) category_spending =
     (case get_or (date txn) [] of
        None \<Rightarrow> Inl (TypeError, ''NoneType object is not subscriptable'')
      | Some d \<Rightarrow>
         (case get_or (amount txn) 0 of
            None \<Rightarrow> Inl (TypeError, ''>= not supported between NoneType and int'')
          | Some a \<Rightarrow>
              if a \<ge> 0 then spending_loop lib start_date end_date rest category_spending
              else if \<not> (start_date \<le> take 10 d \<and> take 10 d \<le> end_date)
              then spending_loop lib start_date end_date rest category_spending
              else spending_loop lib start_date end_date rest
                     (count_in lib category_spending
                        (get_or (category_name txn) ''Other'') \<bar>a\<bar>)))"

text \<open>\<open>percentage = data["amount"] / total_spending if total_spending > 0 else 0\<close>.\<close>

definition percentage_of :: "pylib \<Rightarrow> rat \<Rightarrow> rat \<Rightarrow> rat" where
  "percentage_of lib amount_spent total_spending =
     (if total_spending > 0 then float_div lib amount_spent total_spending else 0)"

record category_row =
  row_category_name :: "string option"
  row_icon_name :: string
  row_color_hex :: string
  row_amount :: rat
  row_percentage :: rat
  row_transaction_count :: nat

definition category_config :: "string option \<Rightarrow> string \<times> string" where
  "category_config name =
     (case (case name of None \<Rightarrow> None | Some n \<Rightarrow> map_of CATEGORY_CONFIG n) of
        None \<Rightarrow> (''ellipsis.circle'', ''#B0B0B0'')
      | Some c \<Rightarrow> c)"

text \<open>
  The categories in descending order of amount (a stable sort) and the rows of the
  response: amount rounded to 2 places, percentage to 4.
\<close>

definition by_amount_desc ::
  "(string option \<times> rat \<times> nat) list \<Rightarrow> (string option \<times> rat \<times> nat) list" where
  "by_amount_desc category_spending = sort_key (\<lambda>(name, amt, cnt). - amt) category_spending"

definition spending_rows ::
  "pylib \<Rightarrow> (string option \<times> rat \<times> nat) list \<Rightarrow> rat \<Rightarrow> category_row list" where
  "spending_rows lib category_spending total_spending =
     map (\<lambda>(name, amt, cnt).
            \<lparr>row_category_name = name,
             row_icon_name = fst (category_config name),
             row_color_hex = snd (category_config name),
             row_amount = py_round lib amt 2,
             row_percentage = py_round lib (percentage_of lib amt total_spending) 4,
             row_transaction_count = cnt\<rparr>)
         (by_amount_desc category_spending)"

record spending_body =
  sp_categories :: "category_row list"
  sp_total_spending :: rat

text \<open>\<open>total_spending = sum(cat["amount"] for cat in category_spending.values())\<close>.\<close>

definition total_of :: "pylib \<Rightarrow> ('k \<times> rat \<times> nat) list \<Rightarrow> rat" where
  "total_of lib category_spending =
     py_sum lib (map (\<lambda>(name, amt, cnt). amt) category_spending)"

definition spending_by_category ::
  "pylib \<Rightarrow> string \<Rightarrow> string \<Rightarrow> txn list \<Rightarrow> exn + spending_body" where
  "spending_by_category lib start_date end_date txns =
     (case spending_loop lib start_date end_date txns [] of
        Inl e \<Rightarrow> Inl e
      | Inr category_spending \<Rightarrow>
          Inr \<lparr>sp_categories =
                 spending_rows lib category_spending (total_of lib category_spending),
               sp_total_spending = py_round lib (total_of lib category_spending) 2\<rparr>)"

text \<open>
  What enters the category dictionary of the spending handler for a transaction, if
  anything: its category and the magnitude of its negative amount, when its date is in the
  range. The entries of a list of transactions, and the percentages of the categories in
  the order of the response, before they are rounded.
\<close>

definition spent :: "string \<Rightarrow> string \<Rightarrow> txn \<Rightarrow> (string option \<times> rat) option" where
  "spent start_date end_date txn =
     (case get_or (date txn) [] of
        None \<Rightarrow> None
      | Some d \<Rightarrow>
         (case get_or (amount txn) 0 of
            None \<Rightarrow> None
          | Some a \<Rightarrow>
              if a < 0 \<and> start_date \<le> take 10 d \<and> take 10 d \<le> end_date
              then Some (get_or (category_name txn) ''Other'', \<bar>a\<bar>) else None))"

definition spending_parts :: "string \<Rightarrow> string \<Rightarrow> txn list \<Rightarrow> (string option \<times> rat) list" where
  "spending_parts start_date end_date txns = List.map_filter (spent start_date end_date) txns"

definition shares :: "pylib \<Rightarrow> (string option \<times> rat \<times> nat) list \<Rightarrow> rat \<Rightarrow> rat list" where
  "shares lib category_spending total_spending =
     map (\<lambda>(name, amt, cnt). percentage_of lib amt total_spending)
       (by_amount_desc category_spending)"

text \<open>
  The entry of a key in the category dictionary (amount 0 and count 0 when there is none),
  and a category dictionary \<open>d'\<close> that is \<open>d\<close> after counting a list of entries.
\<close>

definition cell :: "('k \<times> rat \<times> nat) list \<Rightarrow> 'k \<Rightarrow> rat \<times> nat" where
  "cell d k = (case map_of d k of None \<Rightarrow> (0, 0) | Some c \<Rightarrow> c)"

definition counted ::
  "pylib \<Rightarrow> ('k \<times> rat \<times> nat) list \<Rightarrow> ('k \<times> rat) list \<Rightarrow> ('k \<times> rat \<times> nat) list \<Rightarrow> bool" where
  "counted lib d parts d' \<longleftrightarrow>
     (\<forall>k. map_of d' k =
            (if amounts_at parts k = [] then map_of d k
             else Some (foldl (float_add lib) (fst (cell d k)) (amounts_at parts k),
                        snd (cell d k) + length (amounts_at parts k)))) \<and>
     (float_add lib = (+) \<longrightarrow>
        sum_list (map (\<lambda>(name, amt, cnt). amt) d')
          = sum_list (map (\<lambda>(name, amt, cnt). amt) d) + sum_list (map snd parts))"

subsection \<open>Budget comparison\<close>









section \<open>Savings goals (database.py, create\_goal.py, contribute\_to\_goal.py, get\_savings\_progress.py)\<close>

definition empty_goal :: goal where
  "empty_goal =
     \<lparr>g_pk = Absent, g_sk = Absent, g_id = Absent, g_user_id = Absent, g_created_at = Absent,
      g_last_updated = Absent, g_status = Absent, g_is_ai_generated = Absent,
      g_progress = Absent, g_title = Absent, g_description = Absent,
      g_target_amount = Absent, g_current_amount = Absent, g_target_date = Absent,
      g_category = Absent, g_priority = Absent\<rparr>"

text \<open>
  \<open>{**item, **d}\<close>, and also what \<open>SET\<close> does to an item: every key of \<open>d\<close> takes the value
  it has in \<open>d\<close>, the other keys stay.
\<close>

definition over :: "'a attr \<Rightarrow> 'a attr \<Rightarrow> 'a attr" where
  "over a b = (case b of Absent \<Rightarrow> a | Null \<Rightarrow> Null | Val v \<Rightarrow> Val v)"

definition merge_goal :: "goal \<Rightarrow> goal \<Rightarrow> goal" where
  "merge_goal item d =
     \<lparr>g_pk = over (g_pk item) (g_pk d), g_sk = over (g_sk item) (g_sk d),
      g_id = over (g_id item) (g_id d), g_user_id = over (g_user_id item) (g_user_id d),
      g_created_at = over (g_created_at item) (g_created_at d),
      g_last_updated = over (g_last_updated item) (g_last_updated d),
      g_status = over (g_status item) (g_status d),
      g_is_ai_generated = over (g_is_ai_generated item) (g_is_ai_generated d),
      g_progress = over (g_progress item) (g_progress d),
      g_title = over (g_title item) (g_title d),
      g_description = over (g_description item) (g_description d),
      g_target_amount = over (g_target_amount item) (g_target_amount d),
      g_current_amount = over (g_current_amount item) (g_current_amount d),
      g_target_date = over (g_target_date item) (g_target_date d),
      g_category = over (g_category item) (g_category d),
      g_priority = over (g_priority item) (g_priority d)\<rparr>"

text \<open>\<open>d.get(k, default)\<close> where the default is itself the result of a \<open>get\<close>.\<close>

definition get_else :: "'a attr \<Rightarrow> 'a option \<Rightarrow> 'a option" where
  "get_else a d = (case a of Absent \<Rightarrow> d | Null \<Rightarrow> None | Val v \<Rightarrow> Some v)"

text \<open>
  \<open>current / target if target > 0 else 0\<close>, as \<open>create_goal\<close>, \<open>update_goal\<close> and the
  create handler each compute it; \<open>None\<close> raises where it is compared or divided.
\<close>

definition progress_of :: "pylib \<Rightarrow> rat option \<Rightarrow> rat option \<Rightarrow> exn + rat" where
  "progress_of lib current target =
     (case target of
        None \<Rightarrow> Inl (TypeError, ''> not supported between NoneType and int'')
      | Some t \<Rightarrow>
          if t > 0
          then (case current of
                  None \<Rightarrow> Inl (TypeError, ''unsupported operand type(s) for /'')
                | Some c \<Rightarrow> Inr (float_div lib c t))
          else Inr 0)"

subsection \<open>The goal repository\<close>

text \<open>
  \<open>put_item\<close> and \<open>update_item\<close> on the goals table. The store rejects an item whose key
  attributes are not strings and an update that names a key attribute; \<open>update_item\<close>
  creates the item when there is none and returns the new item.
\<close>

definition rejected :: "env \<Rightarrow> 'a prog" where
  "rejected env =
     and_then (db_call env (\<lambda>w. ((), w))) (\<lambda>_. raise (ClientError, ''ValidationException''))"

definition goal_put :: "env \<Rightarrow> goal \<Rightarrow> goal prog" where
  "goal_put env item =
     (case (g_pk item, g_sk item) of
        (Val p, Val s) \<Rightarrow>
          db_call env (\<lambda>w. (item, w\<lparr>goals_table := (goals_table w)((p, s) \<mapsto> item)\<rparr>))
      | _ \<Rightarrow> rejected env)"

definition goal_update :: "env \<Rightarrow> string \<Rightarrow> string \<Rightarrow> goal \<Rightarrow> goal prog" where
  "goal_update env p s updates =
     (if g_pk updates \<noteq> Absent \<or> g_sk updates \<noteq> Absent then rejected env
      else db_call env (\<lambda>w.
             let old = (case goals_table w (p, s) of
                          None \<Rightarrow> empty_goal\<lparr>g_pk := Val p, g_sk := Val s\<rparr>
                        | Some g \<Rightarrow> g);
                 new = merge_goal old updates
             in (new, w\<lparr>goals_table := (goals_table w)((p, s) \<mapsto> new)\<rparr>)))"

definition get_goal :: "env \<Rightarrow> string \<Rightarrow> string \<Rightarrow> goal option prog" where
  "get_goal env uid goal_id =
     db_call env (\<lambda>w. (goals_table w (''USER#'' @ uid, ''GOAL#'' @ goal_id), w))"

text \<open>\<open>GoalRepository.create_goal\<close>: the keys of \<open>goal_data\<close> override those of the literal.\<close>

definition create_goal :: "env \<Rightarrow> pylib \<Rightarrow> string \<Rightarrow> goal \<Rightarrow> goal prog" where
  "create_goal env lib uid goal_data =
     and_then (generate_id env) (\<lambda>goal_id.
     and_then (lift (progress_of lib (get_or (g_current_amount goal_data) 0)
                       (get_or (g_target_amount goal_data) 1))) (\<lambda>progress.
     and_then (get_timestamp env lib) (\<lambda>ts.
     goal_put env
       (merge_goal
          (empty_goal\<lparr>g_pk := Val (''USER#'' @ uid), g_sk := Val (''GOAL#'' @ goal_id),
                      g_id := Val goal_id, g_user_id := Val uid, g_created_at := Val ts,
                      g_status := Val ''active'',
                      g_is_ai_generated := stored (get_or (g_is_ai_generated goal_data) False),
                      g_progress := Val progress\<rparr>)
          goal_data))))"

text \<open>
  \<open>GoalRepository.update_goal\<close>: the progress is recomputed when \<open>updates\<close> has one of the
  two amounts and the goal is found; the amounts it does not have are the goal's.
\<close>

definition with_progress :: "env \<Rightarrow> pylib \<Rightarrow> string \<Rightarrow> string \<Rightarrow> goal \<Rightarrow> goal prog" where
  "with_progress env lib uid goal_id updates =
     (if g_current_amount updates \<noteq> Absent \<or> g_target_amount updates \<noteq> Absent
      then and_then (get_goal env uid goal_id) (\<lambda>found.
             case found of
               None \<Rightarrow> ret updates
             | Some goal \<Rightarrow>
                 and_then (lift (progress_of lib
                                   (get_else (g_current_amount updates)
                                      (get_or (g_current_amount goal) 0))
                                   (get_else (g_target_amount updates)
                                      (get_or (g_target_amount goal) 1)))) (\<lambda>progress.
                 ret (updates\<lparr>g_progress := Val progress\<rparr>)))
      else ret updates)"

definition update_goal :: "env \<Rightarrow> pylib \<Rightarrow> string \<Rightarrow> string \<Rightarrow> goal \<Rightarrow> goal prog" where
  "update_goal env lib uid goal_id updates =
     and_then (get_timestamp env lib) (\<lambda>ts.
     and_then (with_progress env lib uid goal_id (updates\<lparr>g_last_updated := Val ts\<rparr>))
       (\<lambda>updates'.
     goal_update env (''USER#'' @ uid) (''GOAL#'' @ goal_id) updates'))"

subsection \<open>The handlers that write amounts\<close>

text \<open>
  The create handler from the check of the target amount on, for a title, a description
  and two amounts that have passed their validation: it computes the progress itself and
  passes it in \<open>goal_data\<close>. Its answer is built from the item the repository returns,
  which stands for it here.
\<close>

definition VALID_CATEGORIES :: "string list" where
  "VALID_CATEGORIES =
     [''savings'', ''debt_payoff'', ''emergency'', ''investment'', ''purchase'',
      ''retirement'', ''vacation'', ''custom'']"

definition handler_goal_data ::
  "string \<Rightarrow> string \<Rightarrow> rat \<Rightarrow> rat \<Rightarrow> string option \<Rightarrow> string \<Rightarrow> rat \<Rightarrow> goal" where
  "handler_goal_data title descr target_amount current_amount target_date category progress =
     empty_goal\<lparr>g_title := Val title, g_description := Val descr,
                g_target_amount := Val target_amount, g_current_amount := Val current_amount,
                g_target_date := stored target_date, g_category := Val category,
                g_is_ai_generated := Val False, g_priority := Val 0,
                g_progress := Val progress\<rparr>"

definition create_goal_handler ::
  "env \<Rightarrow> pylib \<Rightarrow> string \<Rightarrow> string \<Rightarrow> string \<Rightarrow> rat \<Rightarrow> rat \<Rightarrow> string option \<Rightarrow> string
     \<Rightarrow> goal response prog" where
  "create_goal_handler env lib uid title descr target_amount current_amount target_date
     category =
     (if target_amount \<le> 0 then ret (bad_request ''Target amount must be greater than 0'')
      else if truthy target_date \<and> strptime_ymd lib (the target_date) = None
      then ret (bad_request ''Invalid target_date format. Use YYYY-MM-DD'')
      else if category \<notin> set VALID_CATEGORIES
      then ret (bad_request (''Invalid category. Must be one of: savings, debt_payoff, '' @
                             ''emergency, investment, purchase, retirement, vacation, custom''))
      else and_then (lift (progress_of lib (Some current_amount) (Some target_amount)))
             (\<lambda>progress.
           and_then (create_goal env lib uid
                       (handler_goal_data title descr target_amount current_amount
                          target_date category progress)) (\<lambda>goal.
           ret (created goal))))"

text \<open>
  The contribution handler from the check of the amount on, for an amount that has passed
  its validation: the goal is read, the amount is added to its current amount, and the
  repository updates the goal with the new current amount. The answer is built from the
  updated item, which stands for it here, and from a contribution record.
\<close>

definition contribute_handler ::
  "env \<Rightarrow> pylib \<Rightarrow> string \<Rightarrow> string \<Rightarrow> rat \<Rightarrow> goal response prog" where
  "contribute_handler env lib uid goal_id amt =
     (if amt \<le> 0 then ret (bad_request ''Contribution amount must be greater than 0'')
      else and_then (get_goal env uid goal_id) (\<lambda>found.
             case found of
               None \<Rightarrow> ret (not_found ''Goal not found'')
             | Some goal \<Rightarrow>
                (case get_or (g_current_amount goal) 0 of
                   None \<Rightarrow> raise (TypeError, ''unsupported operand type(s) for +'')
                 | Some current \<Rightarrow>
                     and_then (update_goal env lib uid goal_id
                                 (empty_goal\<lparr>g_current_amount :=
                                               Val (float_add lib current amt)\<rparr>))
                       (\<lambda>updated_goal.
                     and_then (generate_id env) (\<lambda>contribution_id.
                     and_then (get_timestamp env lib) (\<lambda>contribution_date.
                     ret (success updated_goal)))))))"

text \<open>The progress field of an item is what the formula gives for the item's amounts.\<close>

definition progress_consistent :: "pylib \<Rightarrow> goal \<Rightarrow> bool" where
  "progress_consistent lib item =
     (case progress_of lib (get_or (g_current_amount item) 0) (get_or (g_target_amount item) 1) of
        Inl e \<Rightarrow> False
      | Inr p \<Rightarrow> g_progress item = Val p)"

subsection \<open>The projection of a goal's completion\<close>

text \<open>
  \<open>created_at.replace("Z", "+00:00")\<close>; the wall-clock reading of a datetime, which is
  what \<open>replace(tzinfo=None)\<close> keeps (\<open>Aware t offset\<close> reads \<open>t\<close> at its offset); and
  \<open>int(x)\<close> of a float.
\<close>

definition replace_Z :: "string \<Rightarrow> string" where
  "replace_Z s = concat (map (\<lambda>c. if c = CHR ''Z'' then ''+00:00'' else [c]) s)"

definition without_tzinfo :: "datetime \<Rightarrow> int" where
  "without_tzinfo d = (case d of Naive t \<Rightarrow> t | Aware t offset \<Rightarrow> t)"

definition truncated :: "rat \<Rightarrow> int" where
  "truncated x = (if x \<ge> 0 then \<lfloor>x\<rfloor> else \<lceil>x\<rceil>)"

text \<open>
  \<open>calculate_projected_completion\<close>, with the reading of \<open>datetime.now()\<close> as a parameter.
  The result is the projected date, \<open>on_track\<close> and the monthly contribution.
\<close>

definition calculate_projected_completion ::
  "pylib \<Rightarrow> int \<Rightarrow> goal \<Rightarrow> exn + string option \<times> bool \<times> rat" where
  "calculate_projected_completion lib now goal =
     (let current_amount = get_or (g_current_amount goal) 0;
          target_amount = get_or (g_target_amount goal) 0;
          target_date = get_attr (g_target_date goal);
          created_str = get_or (g_created_at goal) []
      in if \<not> truthy target_date then Inr (None, False, 0)
         else
        (case target_amount of
           None \<Rightarrow> Inl (TypeError, ''<= not supported between NoneType and int'')
         | Some tgt \<Rightarrow>
             if tgt \<le> 0 then Inr (None, False, 0)
             else
        (case strptime_ymd lib (the target_date) of
           None \<Rightarrow> Inr (None, False, 0)
         | Some target \<Rightarrow>
        (case created_str of
           None \<Rightarrow> Inl (AttributeError, ''NoneType object has no attribute replace'')
         | Some ca \<Rightarrow>
        (case fromisoformat lib (replace_Z ca) of
           None \<Rightarrow> Inr (None, False, 0)
         | Some created_dt \<Rightarrow>
        (case current_amount of
           None \<Rightarrow> Inl (TypeError, ''unsupported operand type(s) for -'')
         | Some cur \<Rightarrow>
             if float_sub lib tgt cur \<le> 0
             then (case created_dt of
                     Aware t offset \<Rightarrow>
                       Inl (TypeError, ''can't compare offset-naive and offset-aware datetimes'')
                   | Naive c \<Rightarrow>
                       if target > c
                       then (if days_between target c = 0
                             then Inl (ZeroDivisionError, ''division by zero'')
                             else Inr (target_date, True,
                                       float_div lib cur (of_int (days_between target c))))
                       else Inr (target_date, True, 0))
             else
               (let days_elapsed = days_between now (without_tzinfo created_dt)
                in if days_elapsed \<le> 0 then Inr (target_date, True, 0)
                   else
                     (let daily_rate = float_div lib cur (of_int days_elapsed);
                          days_to_target = days_between target now
                      in if days_to_target \<le> 0
                         then Inr (target_date, False, float_mul lib daily_rate 30)
                         else if daily_rate > 0
                         then (case timedelta_days
                                      (truncated (float_div lib (float_sub lib tgt cur) daily_rate)) of
                                 Inl e \<Rightarrow> Inl e
                               | Inr delta \<Rightarrow>
                                  (case datetime_add now delta of
                                     Inl e \<Rightarrow> Inl e
                                   | Inr projected \<Rightarrow>
                                       Inr (Some (strftime_ymd lib projected),
                                            projected \<le> target,
                                            float_mul lib daily_rate 30)))
                         else Inr (None, False, float_mul lib daily_rate 30)))))))))"

section \<open>Replaying a page\<close>

text \<open>
  Vocabulary for running the three loops twice on one aggregator response: an item without
  its two timestamps, whether a record passes the account filter, the key a record with the
  key \<open>transaction_id\<close> is stored under, the records of a field of the response, and the key
  a \<open>removed\<close> entry deletes.
\<close>

definition unstamped :: "txn \<Rightarrow> txn" where
  "unstamped t = t\<lparr>created_at := Absent, synced_at := Absent\<rparr>"

definition matches :: "account \<Rightarrow> plaid_txn \<Rightarrow> bool" where
  "matches acct p \<longleftrightarrow> get_attr (p_account_id p) = get_attr (a_plaid_account_id acct)"

definition external_key :: "string \<Rightarrow> plaid_txn \<Rightarrow> string \<times> string" where
  "external_key aid p = (''ACCOUNT#'' @ aid, ''TXN#'' @ fmt (get_attr (p_transaction_id p)))"

definition records_of :: "'a list attr \<Rightarrow> 'a list" where
  "records_of a = (case a of Val xs \<Rightarrow> xs | _ \<Rightarrow> [])"

definition have_external_ids :: "account \<Rightarrow> plaid_txn list \<Rightarrow> bool" where
  "have_external_ids acct ps \<longleftrightarrow> list_all (\<lambda>p. matches acct p \<longrightarrow> p_transaction_id p \<noteq> Absent) ps"

definition removed_key :: "string \<Rightarrow> removed_txn \<Rightarrow> (string \<times> string) option" where
  "removed_key aid r =
     (case get_attr (r_transaction_id r) of
        None \<Rightarrow> None
      | Some txn_id \<Rightarrow> if txn_id \<noteq> [] then Some (''ACCOUNT#'' @ aid, ''TXN#'' @ txn_id) else None)"

definition same_but_stamps :: "txn option \<Rightarrow> txn option \<Rightarrow> bool" where
  "same_but_stamps a b \<longleftrightarrow> map_option unstamped a = map_option unstamped b"

text \<open>The day window in the specification's words: the request clamped to [1, 730].\<close>

definition spec_day_window :: "int \<Rightarrow> int" where
  "spec_day_window days = max 1 (min 730 days)"

section \<open>Concrete inputs\<close>

text \<open>
  A world for running the definitions: identifiers \<open>a\<close>, \<open>aa\<close>, \<open>aaa\<close>, \<dots>, a clock
  that starts at 2024-03-05T12:00:00 and advances one second per reading, a store that
  never fails, the library's conversions on the few values used, and arithmetic without
  rounding.
\<close>

definition demo_lib :: pylib where
  "demo_lib =
     \<lparr>int_str = map_of
        [(''30'', 30), (''7'', 7), (''1000'', 1000), (''0'', 0), (''-5'', - 5)],
      strptime_ymd = map_of
        [(''2023-12-01'', 63836985600000000), (''2024-01-01'', 63839664000000000),
         (''2024-03-01'', 63844848000000000), (''2024-03-05'', 63845193600000000),
         (''2024-06-01'', 63852796800000000)],
      fromisoformat = map_of
        [(''2024-01-01T00:00:00+00:00'', Aware 63839664000000000 0),
         (''2024-01-01T00:00:00'', Naive 63839664000000000)],
      strftime_ymd = (\<lambda>d. case map_of
        [(63844761600000000, ''2024-02-29''), (63844848000000000, ''2024-03-01''),
         (63845107200000000, ''2024-03-04''), (63845193600000000, ''2024-03-05''),
         (63845236800000000, ''2024-03-05''), (63845236801000000, ''2024-03-05''),
         (63842644801000000, ''2024-02-04''), (63844632001000000, ''2024-02-27''),
         (63782164801000000, ''2022-03-06''), (63845150401000000, ''2024-03-04''),
         (63845668801000000, ''2024-03-10'')] d of None \<Rightarrow> ''?'' | Some s \<Rightarrow> s),
      strftime_ym = (\<lambda>d. case map_of
        [(63844848000000000, ''2024-03''), (63845193600000000, ''2024-03'')] d of
           None \<Rightarrow> ''?'' | Some s \<Rightarrow> s),
      isoformat = (\<lambda>d. case map_of
        [(63845236800000000, ''2024-03-05T12:00:00''),
         (63845236801000000, ''2024-03-05T12:00:01''),
         (63845236802000000, ''2024-03-05T12:00:02''),
         (63845236803000000, ''2024-03-05T12:00:03'')] d of None \<Rightarrow> ''?'' | Some s \<Rightarrow> s),
      float_add = (+), float_sub = (-), float_mul = (*), float_div = (/),
      float_sum = sum_list, float_round = round_half_even\<rparr>"

definition demo_creds :: plaid_creds where
  "demo_creds = \<lparr>client_id = Val ''cid'', secret = Val ''s3cr3t'', environment = Val ''sandbox''\<rparr>"

definition coffee :: plaid_txn where
  "coffee =
     \<lparr>p_transaction_id = Val ''t1'', p_account_id = Val ''a1'', p_amount = Val (25 / 2),
      p_name = Val ''Coffee'', p_merchant_name = Null, p_date = Val ''2024-03-05'',
      p_datetime = Null, p_pending = Val False,
      p_personal_finance_category =
        Val \<lparr>primary = Val ''FOOD_AND_DRINK'', detailed = Val ''FOOD_AND_DRINK_COFFEE''\<rparr>,
      p_category = Absent, p_payment_channel = Val ''in store'', p_location = Absent\<rparr>"

text \<open>The same record without the key \<open>transaction_id\<close>.\<close>

definition nameless :: plaid_txn where
  "nameless = coffee\<lparr>p_transaction_id := Absent\<rparr>"

text \<open>The same record with \<open>"transaction_id": null\<close>.\<close>

definition null_id :: plaid_txn where
  "null_id = coffee\<lparr>p_transaction_id := Null\<rparr>"

text \<open>A record whose \<open>personal_finance_category\<close> is \<open>null\<close>: mapping it raises.\<close>

definition uncategorised :: plaid_txn where
  "uncategorised = coffee\<lparr>p_transaction_id := Val ''t2'', p_personal_finance_category := Null\<rparr>"

definition demo_env :: env where
  "demo_env =
     \<lparr>uuid4 = (\<lambda>n. replicate (Suc n) CHR ''a''),
      utcnow = (\<lambda>n. 63845236800000000 + int n * 1000000),
      db_fault = (\<lambda>n. None),
      get_secret_value = Inr demo_creds,
      transactions_sync = (\<lambda>r. Inr \<lparr>added = Val [coffee], modified = Val [],
                                     removed = Val [], next_cursor = Val ''c1'',
                                     has_more = Val False\<rparr>),
      transactions_get = (\<lambda>r. Inr \<lparr>transactions = Val [coffee]\<rparr>)\<rparr>"

definition demo_aid :: string where
  "demo_aid = ''123e4567-e89b-12d3-a456-426614174000''"

definition demo_account :: account where
  "demo_account =
     \<lparr>a_id = Val demo_aid, a_plaid_access_token = Val ''tok'',
      a_plaid_account_id = Val ''a1'', a_plaid_sync_cursor = Absent, a_last_synced = Absent\<rparr>"

definition demo_world :: world where
  "demo_world =
     \<lparr>accounts_table =
        [(''USER#u1'', ''ACCOUNT#'' @ demo_aid) \<mapsto> demo_account],
      transactions_table = Map.empty, goals_table = Map.empty, ids_drawn = 0, clock_reads = 0,
      db_calls = 0\<rparr>"

text \<open>An aggregator that cannot be reached.\<close>

definition failing_env :: env where
  "failing_env = demo_env\<lparr>transactions_sync := (\<lambda>r. Inl (URLError, ''timed out''))\<rparr>"

text \<open>An aggregator whose page has a good record and then one that cannot be mapped.\<close>

definition half_page :: sync_response where
  "half_page = \<lparr>added = Val [coffee, uncategorised], modified = Val [], removed = Val [],
                 next_cursor = Val ''c1'', has_more = Val False\<rparr>"

definition half_env :: env where
  "half_env = demo_env\<lparr>transactions_sync := (\<lambda>r. Inr half_page)\<rparr>"

definition nameless_page :: sync_response where
  "nameless_page = \<lparr>added = Val [nameless], modified = Absent, removed = Val [],
                     next_cursor = Val ''c1'', has_more = Val False\<rparr>"

definition coffee_page :: sync_response where
  "coffee_page = \<lparr>added = Val [coffee], modified = Val [coffee\<lparr>p_amount := Val 13\<rparr>],
                   removed = Val [\<lparr>r_transaction_id = Val ''t0''\<rparr>],
                   next_cursor = Val ''c1'', has_more = Val False\<rparr>"

text \<open>
  An aggregator that answers a legacy request with an error that names the two dates it
  was asked for, and a request for the legacy branch with a given \<open>days\<close> parameter.
\<close>

definition echo_env :: env where
  "echo_env =
     demo_env\<lparr>transactions_get :=
       (\<lambda>r. Inl (URLError, gr_start_date r @ '' to '' @ gr_end_date r))\<rparr>"

definition legacy_event :: "string attr \<Rightarrow> event" where
  "legacy_event days =
     \<lparr>ev_user_id = ''u1'', ev_account_id = Some demo_aid, ev_use_sync = Val ''false'',
      ev_days = days\<rparr>"

text \<open>Stored transactions for the rollups.\<close>

definition stored_txn :: "string \<Rightarrow> string \<Rightarrow> rat \<Rightarrow> string \<Rightarrow> txn" where
  "stored_txn tid day amt cat =
     \<lparr>pk = ''ACCOUNT#'' @ demo_aid, sk = ''TXN#'' @ tid, id = Val tid, user_id = Val ''u1'',
      account_id = Val demo_aid, plaid_transaction_id = Val tid, amount = Val amt,
      is_debit = Val (amt > 0), description = Val tid, merchant_name = Null, date = Val day,
      datetime_str = Null, pending = Val False, category_name = Val cat,
      category_detailed = Val [], category_icon = Val ''questionmark.circle.fill'',
      category_color = Val ''#95A5A6'', payment_channel = Null,
      location = Val \<lparr>loc_city = Null, loc_region = Null, loc_country = Null\<rparr>,
      created_at = Val ''2024-03-05T12:00:00Z'', synced_at = Val ''2024-03-05T12:00:00Z''\<rparr>"

text \<open>Six expenses of 1.00 in six categories.\<close>

definition six_expenses :: "txn list" where
  "six_expenses =
     [stored_txn ''e1'' ''2024-03-01'' (- 1) ''Food And Drink'',
      stored_txn ''e2'' ''2024-03-02'' (- 1) ''Travel'',
      stored_txn ''e3'' ''2024-03-03'' (- 1) ''Shopping'',
      stored_txn ''e4'' ''2024-03-04'' (- 1) ''Entertainment'',
      stored_txn ''e5'' ''2024-03-05'' (- 1) ''Transportation'',
      stored_txn ''e6'' ''2024-03-05'' (- 1) ''Healthcare'']"

text \<open>A month with income and expenses.\<close>

definition march :: "txn list" where
  "march =
     [stored_txn ''m1'' ''2024-03-01'' 2500 ''Income'',
      stored_txn ''m2'' ''2024-03-01'' (- 1200) ''Rent And Utilities'',
      stored_txn ''m3'' ''2024-03-05T08:30:00'' (- 161 / 4) ''Food And Drink'',
      stored_txn ''m4'' ''2024-03-05'' (39 / 2) ''Shopping'',
      stored_txn ''m5'' ''2024-03-05'' (- 39 / 4) ''Food And Drink'',
      stored_txn ''m6'' ''not a date'' (- 5) ''Other'']"



text \<open>
  A goal of 1000 by 2024-03-01, created on 2024-01-01 with 320 saved so far, looked at on
  2024-03-05 at noon.
\<close>

definition late_goal :: goal where
  "late_goal =
     empty_goal\<lparr>g_pk := Val ''USER#u1'', g_sk := Val ''GOAL#g1'', g_id := Val ''g1'',
                g_user_id := Val ''u1'', g_created_at := Val ''2024-01-01T00:00:00Z'',
                g_status := Val ''active'', g_progress := Val (8 / 25),
                g_title := Val ''Bike'', g_target_amount := Val 1000,
                g_current_amount := Val 320, g_target_date := Val ''2024-03-01''\<rparr>"

definition noon :: int where
  "noon = 63845236800000000"

section \<open>Properties of the mapping\<close>

lemmas prog_defs =
  ret_def raise_def and_then_def lift_def generate_id_def read_clock_def get_timestamp_def

text \<open>When the mapping returns an item, and which, and what it leaves behind.\<close>

lemma map_plaid_transaction_Inr:
  "map_plaid_transaction env lib p uid aid w = (Inr t, w') \<longleftrightarrow>
     (\<exists>pfc cat_name amt loc.
        get_or (p_personal_finance_category p) empty_pfc = Some pfc \<and>
        get_or (primary pfc) (legacy_category p) = Some cat_name \<and>
        get_or (p_amount p) 0 = Some amt \<and>
        get_or (p_location p) empty_location = Some loc \<and>
        t = txn_item p uid aid cat_name (get_or (detailed pfc) []) amt loc
              (uuid4 env (ids_drawn w)) (uuid4 env (Suc (ids_drawn w)))
              (isoformat lib (utcnow env (clock_reads w)) @ ''Z'')
              (isoformat lib (utcnow env (Suc (clock_reads w))) @ ''Z'') \<and>
        w' = w\<lparr>ids_drawn := Suc (Suc (ids_drawn w)),
                clock_reads := Suc (Suc (clock_reads w))\<rparr>)"
  by (auto simp: map_plaid_transaction_def prog_defs split: option.splits)

lemma map_plaid_transaction_Inl:
  "map_plaid_transaction env lib p uid aid w = (Inl e, w') \<Longrightarrow>
     accounts_table w' = accounts_table w \<and> transactions_table w' = transactions_table w"
  by (auto simp: map_plaid_transaction_def prog_defs split: option.splits)

lemma map_plaid_transaction_total:
  assumes "mappable p"
  shows "\<exists>t w'. map_plaid_transaction env lib p uid aid w = (Inr t, w')"
proof -
  obtain pfc where 1: "get_or (p_personal_finance_category p) empty_pfc = Some pfc"
    and 2: "primary pfc \<noteq> Null"
    using assms
    by (cases "p_personal_finance_category p") (auto simp: mappable_def get_or_def empty_pfc_def)
  obtain cat_name where 3: "get_or (primary pfc) (legacy_category p) = Some cat_name"
    using 2 by (cases "primary pfc") (auto simp: get_or_def)
  obtain amt where 4: "get_or (p_amount p) 0 = Some amt"
    using assms by (cases "p_amount p") (auto simp: mappable_def get_or_def)
  obtain loc where 5: "get_or (p_location p) empty_location = Some loc"
    using assms by (cases "p_location p") (auto simp: mappable_def get_or_def)
  show ?thesis
    unfolding map_plaid_transaction_Inr using 1 3 4 5 by blast
qed

lemma mappable_coffee: "mappable coffee"
  by (simp add: mappable_def coffee_def)

lemma mappable_nameless: "mappable nameless"
  by (simp add: mappable_def coffee_def nameless_def)

lemma inj_demo_uuid4: "inj (uuid4 demo_env)"
  by (simp add: demo_env_def inj_def)

text \<open>
  Claim C3. Whenever \<open>map_plaid_transaction\<close> returns an item, the item's \<open>amount\<close> is the
  absolute value of the amount the record carries (0 when the record has no amount) and
  its \<open>is_debit\<close> says whether that amount is positive; an amount of 0 gives amount 0 and
  \<open>is_debit = False\<close>. (It returns an item for every record that is \<open>mappable\<close>, see
  \<open>map_plaid_transaction_total\<close>.)
\<close>

theorem mapped_amount_is_magnitude:
  assumes "map_plaid_transaction env lib p uid aid w = (Inr t, w')"
  shows "amount t = Val \<bar>source_amount p\<bar> \<and> is_debit t = Val (0 < source_amount p) \<and>
         (source_amount p = 0 \<longrightarrow> amount t = Val 0 \<and> is_debit t = Val False)"
proof -
  obtain cat_name cd amt loc i1 i2 t1 t2 where
    amt: "get_or (p_amount p) 0 = Some amt"
    and t: "t = txn_item p uid aid cat_name cd amt loc i1 i2 t1 t2"
    using assms unfolding map_plaid_transaction_Inr by blast
  have "source_amount p = amt"
    using amt by (simp add: source_amount_def get_or_def split: attr.splits)
  then show ?thesis
    by (simp add: t txn_item_def)
qed

theorem mapped_amount_is_magnitude_witness:
  "\<not> isl (fst (map_plaid_transaction demo_env demo_lib coffee ''u1'' ''acc1'' demo_world)) \<and>
   amount (projr (fst (map_plaid_transaction demo_env demo_lib coffee ''u1'' ''acc1'' demo_world)))
     = Val (25 / 2) \<and>
   is_debit (projr (fst (map_plaid_transaction demo_env demo_lib coffee ''u1'' ''acc1'' demo_world)))
     = Val True \<and>
   source_amount (coffee\<lparr>p_amount := Val 0\<rparr>) = 0 \<and>
   amount (projr (fst (map_plaid_transaction demo_env demo_lib (coffee\<lparr>p_amount := Val 0\<rparr>)
                         ''u1'' ''acc1'' demo_world))) = Val 0 \<and>
   is_debit (projr (fst (map_plaid_transaction demo_env demo_lib (coffee\<lparr>p_amount := Val 0\<rparr>)
                           ''u1'' ''acc1'' demo_world))) = Val False"
proof -
  have m: "mappable (coffee\<lparr>p_amount := Val 0\<rparr>)"
    by (simp add: mappable_def coffee_def)
  obtain t w' where
    r: "map_plaid_transaction demo_env demo_lib coffee ''u1'' ''acc1'' demo_world = (Inr t, w')"
    using map_plaid_transaction_total [OF mappable_coffee] by blast
  obtain t0 w0' where
    r0: "map_plaid_transaction demo_env demo_lib (coffee\<lparr>p_amount := Val 0\<rparr>)
           ''u1'' ''acc1'' demo_world = (Inr t0, w0')"
    using map_plaid_transaction_total [OF m] by blast
  have s: "source_amount coffee = 25 / 2" "source_amount (coffee\<lparr>p_amount := Val 0\<rparr>) = 0"
    by (simp_all add: source_amount_def coffee_def)
  show ?thesis
    using mapped_amount_is_magnitude [OF r] mapped_amount_is_magnitude [OF r0]
    by (simp add: r r0 s)
qed

lemma mappable_null_id: "mappable null_id"
  by (simp add: mappable_def coffee_def null_id_def)

text \<open>
  Claim C10, as the code has it. What the mapping does for the identifier of a record
  depends on whether the key \<open>transaction_id\<close> is missing or holds \<open>null\<close>. With
  identifiers that are pairwise distinct: when the key is missing, the item has the first
  identifier drawn in its sort key and the next one in its \<open>id\<close>, so \<open>id\<close> is not the
  suffix of the sort key, its \<open>plaid_transaction_id\<close> is \<open>None\<close>, and mapping the record
  again later gives an item under another sort key of the same partition. When the key
  holds \<open>null\<close>, no drawn identifier is used: the sort key is \<open>TXN#None\<close>, \<open>id\<close> and
  \<open>plaid_transaction_id\<close> are \<open>None\<close>, and mapping the record again gives the same key.
  When the key holds an identifier, that identifier is the suffix of the sort key, the
  \<open>id\<close> and the \<open>plaid_transaction_id\<close>, at every mapping.
\<close>

theorem transaction_id_missing_or_null:
  assumes "inj (uuid4 env)"
    and "map_plaid_transaction env lib p uid aid w = (Inr t, w1)"
    and "ids_drawn w1 \<le> ids_drawn w2"
    and "map_plaid_transaction env lib p uid aid w2 = (Inr t', w3)"
  shows "(p_transaction_id p = Absent \<longrightarrow>
            sk t = ''TXN#'' @ uuid4 env (ids_drawn w) \<and>
            id t = Val (uuid4 env (Suc (ids_drawn w))) \<and>
            id t \<noteq> Val (drop 4 (sk t)) \<and>
            plaid_transaction_id t = Null \<and>
            pk t = pk t' \<and> sk t \<noteq> sk t') \<and>
         (p_transaction_id p = Null \<longrightarrow>
            sk t = ''TXN#None'' \<and> id t = Null \<and> plaid_transaction_id t = Null \<and>
            pk t = pk t' \<and> sk t = sk t') \<and>
         (\<forall>x. p_transaction_id p = Val x \<longrightarrow>
            sk t = ''TXN#'' @ x \<and> id t = Val x \<and> plaid_transaction_id t = Val x \<and>
            pk t = pk t' \<and> sk t = sk t')"
proof -
  obtain cn cd amt loc t1 t2 where
    t: "t = txn_item p uid aid cn cd amt loc
              (uuid4 env (ids_drawn w)) (uuid4 env (Suc (ids_drawn w))) t1 t2"
    and w1: "w1 = w\<lparr>ids_drawn := Suc (Suc (ids_drawn w)),
                    clock_reads := Suc (Suc (clock_reads w))\<rparr>"
    using assms(2) unfolding map_plaid_transaction_Inr by blast
  obtain cn' cd' amt' loc' t1' t2' where
    t': "t' = txn_item p uid aid cn' cd' amt' loc'
              (uuid4 env (ids_drawn w2)) (uuid4 env (Suc (ids_drawn w2))) t1' t2'"
    using assms(4) unfolding map_plaid_transaction_Inr by blast
  have c: "ids_drawn w1 = ids_drawn w + 2"
    by (simp add: w1)
  have d: "uuid4 env (Suc (ids_drawn w)) \<noteq> uuid4 env (ids_drawn w)"
    using assms(1) by (simp add: inj_eq)
  have e: "uuid4 env (ids_drawn w) \<noteq> uuid4 env (ids_drawn w2)"
    using assms(1,3) c by (simp add: inj_eq)
  have p: "pk t = pk t'"
    by (simp add: t t' txn_item_def)
  have a: "p_transaction_id p = Absent \<longrightarrow>
            sk t = ''TXN#'' @ uuid4 env (ids_drawn w) \<and>
            id t = Val (uuid4 env (Suc (ids_drawn w))) \<and>
            id t \<noteq> Val (drop 4 (sk t)) \<and>
            plaid_transaction_id t = Null \<and> sk t \<noteq> sk t'"
    using d e by (simp add: t t' txn_item_def get_or_def get_attr_def stored_def fmt_def)
  have n: "p_transaction_id p = Null \<longrightarrow>
            sk t = ''TXN#None'' \<and> id t = Null \<and> plaid_transaction_id t = Null \<and> sk t = sk t'"
    by (simp add: t t' txn_item_def get_or_def get_attr_def stored_def fmt_def)
  have v: "\<forall>x. p_transaction_id p = Val x \<longrightarrow>
            sk t = ''TXN#'' @ x \<and> id t = Val x \<and> plaid_transaction_id t = Val x \<and> sk t = sk t'"
    by (simp add: t t' txn_item_def get_or_def get_attr_def stored_def fmt_def)
  show ?thesis
    using a n v p by blast
qed

theorem transaction_id_missing_or_null_witness:
  "inj (uuid4 demo_env) \<and>
   p_transaction_id nameless = Absent \<and>
   sk (projr (fst (map_plaid_transaction demo_env demo_lib nameless ''u1'' ''acc1'' demo_world)))
     = ''TXN#a'' \<and>
   id (projr (fst (map_plaid_transaction demo_env demo_lib nameless ''u1'' ''acc1'' demo_world)))
     = Val ''aa'' \<and>
   sk (projr (fst (map_plaid_transaction demo_env demo_lib nameless ''u1'' ''acc1'' demo_world)))
     \<noteq> sk (projr (fst (map_plaid_transaction demo_env demo_lib nameless ''u1'' ''acc1''
            (snd (map_plaid_transaction demo_env demo_lib nameless ''u1'' ''acc1'' demo_world))))) \<and>
   p_transaction_id null_id = Null \<and>
   id (projr (fst (map_plaid_transaction demo_env demo_lib null_id ''u1'' ''acc1'' demo_world)))
     = Null \<and>
   sk (projr (fst (map_plaid_transaction demo_env demo_lib null_id ''u1'' ''acc1'' demo_world)))
     = sk (projr (fst (map_plaid_transaction demo_env demo_lib null_id ''u1'' ''acc1''
            (snd (map_plaid_transaction demo_env demo_lib null_id ''u1'' ''acc1'' demo_world))))) \<and>
   p_transaction_id coffee = Val ''t1'' \<and>
   sk (projr (fst (map_plaid_transaction demo_env demo_lib coffee ''u1'' ''acc1'' demo_world)))
     = ''TXN#t1''"
proof -
  have n: "p_transaction_id nameless = Absent" and z: "p_transaction_id null_id = Null"
    and v: "p_transaction_id coffee = Val ''t1''"
    by (simp_all add: nameless_def null_id_def coffee_def)
  obtain t w1 where
    r1: "map_plaid_transaction demo_env demo_lib nameless ''u1'' ''acc1'' demo_world = (Inr t, w1)"
    using map_plaid_transaction_total [OF mappable_nameless] by blast
  obtain t' w3 where
    r2: "map_plaid_transaction demo_env demo_lib nameless ''u1'' ''acc1'' w1 = (Inr t', w3)"
    using map_plaid_transaction_total [OF mappable_nameless] by blast
  obtain u x1 where
    q1: "map_plaid_transaction demo_env demo_lib null_id ''u1'' ''acc1'' demo_world = (Inr u, x1)"
    using map_plaid_transaction_total [OF mappable_null_id] by blast
  obtain u' x3 where
    q2: "map_plaid_transaction demo_env demo_lib null_id ''u1'' ''acc1'' x1 = (Inr u', x3)"
    using map_plaid_transaction_total [OF mappable_null_id] by blast
  obtain c y1 where
    k1: "map_plaid_transaction demo_env demo_lib coffee ''u1'' ''acc1'' demo_world = (Inr c, y1)"
    using map_plaid_transaction_total [OF mappable_coffee] by blast
  obtain c' y3 where
    k2: "map_plaid_transaction demo_env demo_lib coffee ''u1'' ''acc1'' y1 = (Inr c', y3)"
    using map_plaid_transaction_total [OF mappable_coffee] by blast
  have a: "sk t = ''TXN#'' @ uuid4 demo_env (ids_drawn demo_world)"
    "id t = Val (uuid4 demo_env (Suc (ids_drawn demo_world)))" "sk t \<noteq> sk t'"
    using transaction_id_missing_or_null [OF inj_demo_uuid4 r1 order_refl r2] n by blast+
  have b: "id u = Null" "sk u = sk u'"
    using transaction_id_missing_or_null [OF inj_demo_uuid4 q1 order_refl q2] z by blast+
  have c: "sk c = ''TXN#'' @ ''t1''"
    using transaction_id_missing_or_null [OF inj_demo_uuid4 k1 order_refl k2] v by blast
  have i: "uuid4 demo_env (ids_drawn demo_world) = ''a''"
    "uuid4 demo_env (Suc (ids_drawn demo_world)) = ''aa''"
    by (simp_all add: demo_env_def demo_world_def)
  have s1: "sk t = ''TXN#a''" and s2: "id t = Val ''aa''"
    using a by (simp_all add: i)
  have s3: "sk c = ''TXN#t1''"
    using c by simp
  show ?thesis
    using s1 s2 s3 a(3) b n z v inj_demo_uuid4 by (simp add: r1 r2 q1 q2 k1)
qed

text \<open>
  Claim C10 as stated fails for a record that lacks an identifier because its
  \<open>transaction_id\<close> is \<open>null\<close>: both mappings of the record give the sort key
  \<open>TXN#None\<close>, and the \<open>id\<close> is \<open>None\<close>, not a fresh identifier.
\<close>

theorem null_transaction_id_same_key_counterexample:
  "p_transaction_id null_id = Null \<and>
   \<not> isl (fst (map_plaid_transaction demo_env demo_lib null_id ''u1'' ''acc1'' demo_world)) \<and>
   sk (projr (fst (map_plaid_transaction demo_env demo_lib null_id ''u1'' ''acc1'' demo_world)))
     = ''TXN#None'' \<and>
   id (projr (fst (map_plaid_transaction demo_env demo_lib null_id ''u1'' ''acc1'' demo_world)))
     = Null \<and>
   \<not> isl (fst (map_plaid_transaction demo_env demo_lib null_id ''u1'' ''acc1''
            (snd (map_plaid_transaction demo_env demo_lib null_id ''u1'' ''acc1'' demo_world)))) \<and>
   sk (projr (fst (map_plaid_transaction demo_env demo_lib null_id ''u1'' ''acc1''
            (snd (map_plaid_transaction demo_env demo_lib null_id ''u1'' ''acc1'' demo_world)))))
     = ''TXN#None''"
  by (simp add: map_plaid_transaction_def prog_defs get_or_def get_attr_def stored_def
        empty_pfc_def empty_location_def legacy_category_def fmt_def
        txn_item_def null_id_def coffee_def demo_env_def demo_world_def)

section \<open>Properties of the sync handler\<close>

lemma and_then_eq:
  "and_then m f w = (r, w') \<longleftrightarrow>
     (\<exists>e. m w = (Inl e, w') \<and> r = Inl e) \<or> (\<exists>x w1. m w = (Inr x, w1) \<and> f x w1 = (r, w'))"
  by (auto simp: and_then_def split: prod.splits sum.splits)

lemma lift_eq: "lift x w = (r, w') \<longleftrightarrow> r = x \<and> w' = w"
  by (auto simp: lift_def)

lemma ret_eq: "ret x w = (r, w') \<longleftrightarrow> r = Inr x \<and> w' = w"
  by (auto simp: ret_def)

lemma get_timestamp_eq:
  "get_timestamp env lib w = (r, w') \<longleftrightarrow>
     r = Inr (isoformat lib (utcnow env (clock_reads w)) @ ''Z'') \<and>
     w' = w\<lparr>clock_reads := Suc (clock_reads w)\<rparr>"
  by (auto simp: prog_defs)

lemma txn_put_eq:
  "txn_put env item w = (r, w') \<longleftrightarrow>
     (case db_fault env (db_calls w) of
        Some e \<Rightarrow> r = Inl e \<and> w' = w\<lparr>db_calls := Suc (db_calls w)\<rparr>
      | None \<Rightarrow> r = Inr () \<and>
          w' = w\<lparr>db_calls := Suc (db_calls w),
                 transactions_table := (transactions_table w)((pk item, sk item) \<mapsto> item)\<rparr>)"
  by (auto simp: txn_put_def db_call_def Let_def split: option.splits)

lemma txn_delete_eq:
  "txn_delete env p s w = (r, w') \<longleftrightarrow>
     (case db_fault env (db_calls w) of
        Some e \<Rightarrow> r = Inl e \<and> w' = w\<lparr>db_calls := Suc (db_calls w)\<rparr>
      | None \<Rightarrow> r = Inr () \<and>
          w' = w\<lparr>db_calls := Suc (db_calls w),
                 transactions_table := (transactions_table w)((p, s) := None)\<rparr>)"
  by (auto simp: txn_delete_def db_call_def Let_def split: option.splits)

lemma account_update_eq:
  "account_update env p s f w = (r, w') \<longleftrightarrow>
     (case db_fault env (db_calls w) of
        Some e \<Rightarrow> r = Inl e \<and> w' = w\<lparr>db_calls := Suc (db_calls w)\<rparr>
      | None \<Rightarrow> r = Inr () \<and>
          w' = w\<lparr>db_calls := Suc (db_calls w),
                 accounts_table := (accounts_table w)((p, s) \<mapsto>
                    f (case accounts_table w (p, s) of None \<Rightarrow> blank_account | Some a \<Rightarrow> a))\<rparr>)"
  by (auto simp: account_update_def db_call_def Let_def split: option.splits)

text \<open>Mapping and the calls on the transactions table leave the accounts table alone.\<close>

lemma map_plaid_transaction_accounts:
  "map_plaid_transaction env lib p uid aid w = (r, w') \<Longrightarrow>
     accounts_table w' = accounts_table w \<and> transactions_table w' = transactions_table w"
  by (cases r) (auto simp: map_plaid_transaction_Inr dest: map_plaid_transaction_Inl)

lemma txn_put_accounts:
  "txn_put env item w = (r, w') \<Longrightarrow> accounts_table w' = accounts_table w"
  by (auto simp: txn_put_eq split: option.splits)

lemma txn_delete_accounts:
  "txn_delete env p s w = (r, w') \<Longrightarrow> accounts_table w' = accounts_table w"
  by (auto simp: txn_delete_eq split: option.splits)

lemma upsert_matching_accounts:
  "upsert_matching env lib acct uid aid ps n w = (r, w') \<Longrightarrow>
     accounts_table w' = accounts_table w"
proof (induction ps arbitrary: n w)
  case Nil
  then show ?case by (simp add: ret_eq)
next
  case (Cons p ps)
  show ?case
  proof (cases "get_attr (p_account_id p) = get_attr (a_plaid_account_id acct)")
    case False
    with Cons show ?thesis by simp
  next
    case True
    from Cons.prems True show ?thesis
      by (auto simp: and_then_eq dest!: map_plaid_transaction_accounts txn_put_accounts Cons.IH)
  qed
qed

lemma delete_removed_accounts:
  "delete_removed env aid rs n w = (r, w') \<Longrightarrow> accounts_table w' = accounts_table w"
proof (induction rs arbitrary: n w)
  case Nil
  then show ?case by (simp add: ret_eq)
next
  case (Cons x rs)
  then show ?case
    by (auto simp: and_then_eq split: option.splits if_splits
             dest!: txn_delete_accounts Cons.IH)
qed

lemma process_page_accounts:
  "process_page env lib acct uid aid resp w = (r, w') \<Longrightarrow> accounts_table w' = accounts_table w"
  by (auto simp: process_page_def and_then_eq lift_eq ret_eq
           dest!: upsert_matching_accounts delete_removed_accounts)

text \<open>The three ways the body of the \<open>try\<close> can go.\<close>

lemma sync_incremental_cases:
  assumes "sync_incremental env lib acct uid aid tok creds w = (r, w')"
  shows "(\<exists>e. sync_transactions_from_plaid env tok creds (get_attr (a_plaid_sync_cursor acct)) = Inl e
              \<and> r = Inl e \<and> w' = w) \<or>
         (\<exists>resp e. sync_transactions_from_plaid env tok creds (get_attr (a_plaid_sync_cursor acct)) = Inr resp
              \<and> process_page env lib acct uid aid resp w = (Inl e, w') \<and> r = Inl e) \<or>
         (\<exists>resp counts w1 ru. sync_transactions_from_plaid env tok creds (get_attr (a_plaid_sync_cursor acct)) = Inr resp
              \<and> process_page env lib acct uid aid resp w = (Inr counts, w1)
              \<and> account_update env (''USER#'' @ uid) (''ACCOUNT#'' @ aid)
                    (\<lambda>a. a\<lparr>a_plaid_sync_cursor := stored (get_attr (next_cursor resp)),
                            a_last_synced := Val (isoformat lib (utcnow env (clock_reads w1)) @ ''Z'')\<rparr>)
                    (w1\<lparr>clock_reads := Suc (clock_reads w1)\<rparr>) = (ru, w')
              \<and> isl r = isl ru)"
proof (cases "sync_transactions_from_plaid env tok creds (get_attr (a_plaid_sync_cursor acct))")
  case (Inl e)
  then show ?thesis
    using assms by (simp add: sync_incremental_def Let_def and_then_eq lift_eq)
next
  case (Inr resp)
  obtain rp w1 where p: "process_page env lib acct uid aid resp w = (rp, w1)"
    by (cases "process_page env lib acct uid aid resp w")
  show ?thesis
  proof (cases rp)
    case (Inl e)
    then show ?thesis
      using assms Inr p by (simp add: sync_incremental_def Let_def and_then_eq lift_eq)
  next
    case counts: (Inr counts)
    obtain ru wu where u: "account_update env (''USER#'' @ uid) (''ACCOUNT#'' @ aid)
                    (\<lambda>a. a\<lparr>a_plaid_sync_cursor := stored (get_attr (next_cursor resp)),
                            a_last_synced := Val (isoformat lib (utcnow env (clock_reads w1)) @ ''Z'')\<rparr>)
                    (w1\<lparr>clock_reads := Suc (clock_reads w1)\<rparr>) = (ru, wu)"
      by (cases "account_update env (''USER#'' @ uid) (''ACCOUNT#'' @ aid)
                    (\<lambda>a. a\<lparr>a_plaid_sync_cursor := stored (get_attr (next_cursor resp)),
                            a_last_synced := Val (isoformat lib (utcnow env (clock_reads w1)) @ ''Z'')\<rparr>)
                    (w1\<lparr>clock_reads := Suc (clock_reads w1)\<rparr>)")
    have "w' = wu \<and> isl r = isl ru"
      using assms Inr p counts u
      by (cases ru)
         (auto simp: sync_incremental_def Let_def and_then_eq lift_eq ret_eq get_timestamp_eq
               split: prod.splits)
    then show ?thesis
      using Inr p counts u by blast
  qed
qed

lemma txn_item_key:
  "pk (txn_item p uid aid cn cd amt loc i1 i2 t1 t2) = ''ACCOUNT#'' @ aid"
  "sk (txn_item p uid aid cn cd amt loc i1 i2 t1 t2) = ''TXN#'' @ fmt (get_or (p_transaction_id p) i1)"
  by (simp_all add: txn_item_def)

lemmas run_defs =
  sync_branch_def sync_incremental_def process_page_def sync_transactions_from_plaid_def
  get_plaid_host_def subscript_def iterate_def truthy_def
  map_plaid_transaction_def prog_defs txn_put_def txn_delete_def account_update_def db_call_def
  get_or_def get_attr_def stored_def empty_pfc_def empty_location_def legacy_category_def
  success_def service_unavailable_def Let_def txn_item_key fmt_def

lemmas demo_defs = demo_env_def demo_creds_def demo_account_def demo_world_def coffee_def
  uncategorised_def failing_env_def half_env_def half_page_def nameless_def

text \<open>
  Claim C1. The incremental branch answers 200 or 503. When it answers 503 the accounts
  table, and so the account's cursor, is as it was before. It answers 503 whenever the
  aggregator call raises and whenever processing the page raises. When the accounts table
  has changed, the aggregator call returned a page, the three loops over that page ran to
  their end, and nothing was written to the transactions table after that; the account then
  carries the page's \<open>next_cursor\<close>.
\<close>

theorem sync_failure_keeps_cursor:
  assumes "sync_branch env lib acct uid aid tok creds w = (r, w')"
  shows "(status_code r = 200 \<or> status_code r = 503) \<and>
         (status_code r = 503 \<longrightarrow> accounts_table w' = accounts_table w) \<and>
         (isl (sync_transactions_from_plaid env tok creds (get_attr (a_plaid_sync_cursor acct)))
            \<longrightarrow> status_code r = 503) \<and>
         (\<forall>resp. sync_transactions_from_plaid env tok creds (get_attr (a_plaid_sync_cursor acct))
                    = Inr resp \<longrightarrow>
                 isl (fst (process_page env lib acct uid aid resp w)) \<longrightarrow> status_code r = 503) \<and>
         (accounts_table w' \<noteq> accounts_table w \<longrightarrow>
            (\<exists>resp n_added n_modified n_removed w1 a.
               sync_transactions_from_plaid env tok creds (get_attr (a_plaid_sync_cursor acct))
                 = Inr resp \<and>
               process_page env lib acct uid aid resp w
                 = (Inr (n_added, n_modified, n_removed), w1) \<and>
               transactions_table w' = transactions_table w1 \<and>
               accounts_table w' (''USER#'' @ uid, ''ACCOUNT#'' @ aid) = Some a \<and>
               a_plaid_sync_cursor a = stored (get_attr (next_cursor resp))))"
proof -
  obtain ri where ri: "sync_incremental env lib acct uid aid tok creds w = (ri, w')"
    and r: "r = (case ri of Inl e \<Rightarrow> service_unavailable (''Failed to sync transactions: '' @ snd e)
                  | Inr stats \<Rightarrow> success stats)"
    using assms by (auto simp: sync_branch_def split: prod.splits sum.splits)
  have st: "status_code r = (if isl ri then 503 else 200)"
    by (cases ri) (simp_all add: r service_unavailable_def success_def)
  from sync_incremental_cases [OF ri] show ?thesis
  proof (elim disjE exE conjE)
    fix e
    assume "sync_transactions_from_plaid env tok creds (get_attr (a_plaid_sync_cursor acct)) = Inl e"
      "ri = Inl e" "w' = w"
    then show ?thesis by (simp add: st)
  next
    fix resp e
    assume "sync_transactions_from_plaid env tok creds (get_attr (a_plaid_sync_cursor acct)) = Inr resp"
      "process_page env lib acct uid aid resp w = (Inl e, w')" "ri = Inl e"
    then show ?thesis
      using process_page_accounts [of env lib acct uid aid resp w "Inl e" w']
      by (simp add: st)
  next
    fix resp counts w1 ru
    assume c: "sync_transactions_from_plaid env tok creds (get_attr (a_plaid_sync_cursor acct)) = Inr resp"
      and p: "process_page env lib acct uid aid resp w = (Inr counts, w1)"
      and u: "account_update env (''USER#'' @ uid) (''ACCOUNT#'' @ aid)
                    (\<lambda>a. a\<lparr>a_plaid_sync_cursor := stored (get_attr (next_cursor resp)),
                            a_last_synced := Val (isoformat lib (utcnow env (clock_reads w1)) @ ''Z'')\<rparr>)
                    (w1\<lparr>clock_reads := Suc (clock_reads w1)\<rparr>) = (ru, w')"
      and i: "isl ri = isl ru"
    have a1: "accounts_table w1 = accounts_table w"
      using process_page_accounts [OF p] .
    obtain n_added n_modified n_removed where n: "counts = (n_added, n_modified, n_removed)"
      by (cases counts)
    show ?thesis
    proof (cases "db_fault env (db_calls w1)")
      case (Some e)
      then show ?thesis
        using u i c p a1 by (auto simp: account_update_eq st)
    next
      case None
      then show ?thesis
        using u i c p a1 n by (auto simp: account_update_eq st)
    qed
  qed
qed

theorem sync_failure_keeps_cursor_witness:
  "status_code (fst (sync_branch failing_env demo_lib demo_account ''u1'' demo_aid ''tok''
                       demo_creds demo_world)) = 503 \<and>
   accounts_table (snd (sync_branch failing_env demo_lib demo_account ''u1'' demo_aid ''tok''
                          demo_creds demo_world)) = accounts_table demo_world \<and>
   status_code (fst (sync_branch half_env demo_lib demo_account ''u1'' demo_aid ''tok''
                       demo_creds demo_world)) = 503 \<and>
   accounts_table (snd (sync_branch half_env demo_lib demo_account ''u1'' demo_aid ''tok''
                          demo_creds demo_world)) = accounts_table demo_world \<and>
   transactions_table (snd (sync_branch half_env demo_lib demo_account ''u1'' demo_aid ''tok''
                              demo_creds demo_world)) (''ACCOUNT#'' @ demo_aid, ''TXN#t1'') \<noteq> None \<and>
   status_code (fst (sync_branch demo_env demo_lib demo_account ''u1'' demo_aid ''tok''
                       demo_creds demo_world)) = 200 \<and>
   accounts_table (snd (sync_branch demo_env demo_lib demo_account ''u1'' demo_aid ''tok''
                          demo_creds demo_world)) \<noteq> accounts_table demo_world \<and>
   map_option a_plaid_sync_cursor
     (accounts_table (snd (sync_branch demo_env demo_lib demo_account ''u1'' demo_aid ''tok''
                             demo_creds demo_world)) (''USER#u1'', ''ACCOUNT#'' @ demo_aid))
     = Some (Val ''c1'')"
proof -
  let ?A = "sync_branch failing_env demo_lib demo_account ''u1'' demo_aid ''tok'' demo_creds demo_world"
  let ?B = "sync_branch half_env demo_lib demo_account ''u1'' demo_aid ''tok'' demo_creds demo_world"
  let ?C = "sync_branch demo_env demo_lib demo_account ''u1'' demo_aid ''tok'' demo_creds demo_world"
  have a: "isl (sync_transactions_from_plaid failing_env ''tok'' demo_creds
                  (get_attr (a_plaid_sync_cursor demo_account)))"
    by (simp add: run_defs demo_defs)
  have tA: "status_code (fst ?A) = 503 \<and> accounts_table (snd ?A) = accounts_table demo_world"
    using sync_failure_keeps_cursor [of failing_env demo_lib demo_account "''u1''" demo_aid
            "''tok''" demo_creds demo_world "fst ?A" "snd ?A"] a
    by simp
  have b1: "sync_transactions_from_plaid half_env ''tok'' demo_creds
              (get_attr (a_plaid_sync_cursor demo_account)) = Inr half_page"
    by (simp add: sync_transactions_from_plaid_def subscript_def half_env_def demo_env_def
                  demo_creds_def)
  have b2: "isl (fst (process_page half_env demo_lib demo_account ''u1'' demo_aid half_page
                        demo_world))"
    by (simp add: run_defs demo_defs)
  have tB: "status_code (fst ?B) = 503 \<and> accounts_table (snd ?B) = accounts_table demo_world"
    using sync_failure_keeps_cursor [of half_env demo_lib demo_account "''u1''" demo_aid
            "''tok''" demo_creds demo_world "fst ?B" "snd ?B"] b1 b2
    by simp
  have b3: "transactions_table (snd ?B) (''ACCOUNT#'' @ demo_aid, ''TXN#t1'') \<noteq> None"
    by (simp add: run_defs demo_defs)
  have c1: "map_option a_plaid_sync_cursor
              (accounts_table (snd ?C) (''USER#u1'', ''ACCOUNT#'' @ demo_aid)) = Some (Val ''c1'')"
    by (simp add: run_defs demo_defs)
  have c2: "map_option a_plaid_sync_cursor
              (accounts_table demo_world (''USER#u1'', ''ACCOUNT#'' @ demo_aid)) = Some Absent"
    by (simp add: demo_world_def demo_account_def)
  have c3: "accounts_table (snd ?C) \<noteq> accounts_table demo_world"
    using c1 c2 by auto
  have c4: "status_code (fst ?C) = 200"
    using sync_failure_keeps_cursor [of demo_env demo_lib demo_account "''u1''" demo_aid
            "''tok''" demo_creds demo_world "fst ?C" "snd ?C"] c3
    by auto
  show ?thesis
    using tA tB b3 c1 c3 c4 by blast
qed

section \<open>Replaying a page\<close>

lemma mapped_same_but_stamps:
  assumes "p_transaction_id p \<noteq> Absent"
    and "map_plaid_transaction env lib p uid aid w = (Inr t, w')"
    and "map_plaid_transaction env lib p uid aid v = (Inr t', v')"
  shows "unstamped t = unstamped t' \<and> (pk t, sk t) = external_key aid p \<and>
         (pk t', sk t') = external_key aid p"
proof -
  obtain pfc cn amt loc i1 i2 t1 t2 where
    1: "get_or (p_personal_finance_category p) empty_pfc = Some pfc"
       "get_or (primary pfc) (legacy_category p) = Some cn"
       "get_or (p_amount p) 0 = Some amt" "get_or (p_location p) empty_location = Some loc"
    and t: "t = txn_item p uid aid cn (get_or (detailed pfc) []) amt loc i1 i2 t1 t2"
    using assms(2) unfolding map_plaid_transaction_Inr by blast
  obtain pfc' cn' amt' loc' j1 j2 s1 s2 where
    2: "get_or (p_personal_finance_category p) empty_pfc = Some pfc'"
       "get_or (primary pfc') (legacy_category p) = Some cn'"
       "get_or (p_amount p) 0 = Some amt'" "get_or (p_location p) empty_location = Some loc'"
    and t': "t' = txn_item p uid aid cn' (get_or (detailed pfc') []) amt' loc' j1 j2 s1 s2"
    using assms(3) unfolding map_plaid_transaction_Inr by blast
  have e: "pfc' = pfc" "cn' = cn" "amt' = amt" "loc' = loc"
    using 1 2 by simp_all
  show ?thesis
    using assms(1)
    by (cases "p_transaction_id p")
       (simp_all add: t t' e txn_item_def unstamped_def external_key_def get_or_def get_attr_def)
qed

lemma upsert_matching_sim:
  assumes "have_external_ids acct ps"
    and "upsert_matching env lib acct uid aid ps n w = (Inr m, w')"
    and "upsert_matching env lib acct uid aid ps n' v = (Inr m', v')"
    and "same_but_stamps (transactions_table w k) (transactions_table v k) \<or>
         k \<in> external_key aid ` {p \<in> set ps. matches acct p}"
  shows "same_but_stamps (transactions_table w' k) (transactions_table v' k)"
  using assms
proof (induction ps arbitrary: n n' w v)
  case Nil
  then show ?case by (simp add: ret_eq)
next
  case (Cons p ps)
  have ids: "have_external_ids acct ps"
    using Cons.prems(1) by (simp add: have_external_ids_def)
  show ?case
  proof (cases "matches acct p")
    case False
    then show ?thesis
      using Cons.prems Cons.IH [OF ids, of n w n' v] by (auto simp: matches_def)
  next
    case True
    then have tid: "p_transaction_id p \<noteq> Absent"
      using Cons.prems(1) by (simp add: have_external_ids_def)
    obtain t w1 w2 where
      a: "map_plaid_transaction env lib p uid aid w = (Inr t, w1)"
      and b: "txn_put env t w1 = (Inr (), w2)"
      and c: "upsert_matching env lib acct uid aid ps (Suc n) w2 = (Inr m, w')"
      using Cons.prems(2) True by (auto simp: matches_def and_then_eq)
    obtain t' v1 v2 where
      a': "map_plaid_transaction env lib p uid aid v = (Inr t', v1)"
      and b': "txn_put env t' v1 = (Inr (), v2)"
      and c': "upsert_matching env lib acct uid aid ps (Suc n') v2 = (Inr m', v')"
      using Cons.prems(3) True by (auto simp: matches_def and_then_eq)
    note s = mapped_same_but_stamps [OF tid a a']
    have w1: "transactions_table w1 = transactions_table w"
      and v1: "transactions_table v1 = transactions_table v"
      using map_plaid_transaction_accounts [OF a] map_plaid_transaction_accounts [OF a'] by simp_all
    have w2: "transactions_table w2 = (transactions_table w)(external_key aid p \<mapsto> t)"
      using b s w1 by (auto simp: txn_put_eq split: option.splits)
    have v2: "transactions_table v2 = (transactions_table v)(external_key aid p \<mapsto> t')"
      using b' s v1 by (auto simp: txn_put_eq split: option.splits)
    have "same_but_stamps (transactions_table w2 k) (transactions_table v2 k) \<or>
          k \<in> external_key aid ` {p \<in> set ps. matches acct p}"
      using Cons.prems(4) True s by (auto simp: w2 v2 same_but_stamps_def)
    then show ?thesis
      using Cons.IH [OF ids c c'] by blast
  qed
qed

lemma upsert_matching_frame:
  assumes "have_external_ids acct ps"
    and "upsert_matching env lib acct uid aid ps n w = (Inr m, w')"
    and "k \<notin> external_key aid ` {p \<in> set ps. matches acct p}"
  shows "transactions_table w' k = transactions_table w k"
  using assms
proof (induction ps arbitrary: n w)
  case Nil
  then show ?case by (simp add: ret_eq)
next
  case (Cons p ps)
  have ids: "have_external_ids acct ps"
    using Cons.prems(1) by (simp add: have_external_ids_def)
  have k: "k \<notin> external_key aid ` {p \<in> set ps. matches acct p}"
    using Cons.prems(3) by auto
  show ?case
  proof (cases "matches acct p")
    case False
    then show ?thesis
      using Cons.prems(2) Cons.IH [OF ids _ k, of n w] by (auto simp: matches_def)
  next
    case True
    then have tid: "p_transaction_id p \<noteq> Absent"
      using Cons.prems(1) by (simp add: have_external_ids_def)
    obtain t w1 w2 where
      a: "map_plaid_transaction env lib p uid aid w = (Inr t, w1)"
      and b: "txn_put env t w1 = (Inr (), w2)"
      and c: "upsert_matching env lib acct uid aid ps (Suc n) w2 = (Inr m, w')"
      using Cons.prems(2) True by (auto simp: matches_def and_then_eq)
    note s = mapped_same_but_stamps [OF tid a a]
    have w1: "transactions_table w1 = transactions_table w"
      using map_plaid_transaction_accounts [OF a] by simp
    have w2: "transactions_table w2 = (transactions_table w)(external_key aid p \<mapsto> t)"
      using b s w1 by (auto simp: txn_put_eq split: option.splits)
    have "k \<noteq> external_key aid p"
      using Cons.prems(3) True by auto
    then have "transactions_table w2 k = transactions_table w k"
      by (simp add: w2)
    then show ?thesis
      using Cons.IH [OF ids c k] by simp
  qed
qed

lemma delete_removed_table:
  assumes "delete_removed env aid rs n w = (Inr m, w')"
  shows "transactions_table w' k =
           (if Some k \<in> removed_key aid ` set rs then None else transactions_table w k)"
  using assms
proof (induction rs arbitrary: n w)
  case Nil
  then show ?case by (simp add: ret_eq)
next
  case (Cons r rs)
  show ?case
  proof (cases "removed_key aid r")
    case None
    then have "delete_removed env aid rs n w = (Inr m, w')"
      using Cons.prems by (auto simp: removed_key_def split: option.splits if_splits)
    from Cons.IH [OF this] show ?thesis
      using None by auto
  next
    case (Some key)
    then obtain txn_id where tid: "get_attr (r_transaction_id r) = Some txn_id" "txn_id \<noteq> []"
      "key = (''ACCOUNT#'' @ aid, ''TXN#'' @ txn_id)"
      by (auto simp: removed_key_def split: option.splits if_splits)
    obtain w1 where
      d: "txn_delete env (''ACCOUNT#'' @ aid) (''TXN#'' @ txn_id) w = (Inr (), w1)"
      and c: "delete_removed env aid rs (Suc n) w1 = (Inr m, w')"
      using Cons.prems tid by (auto simp: and_then_eq)
    have w1: "transactions_table w1 = (transactions_table w)(key := None)"
      using d tid by (auto simp: txn_delete_eq split: option.splits)
    from Cons.IH [OF c] show ?thesis
      using Some by (auto simp: w1)
  qed
qed

lemma lift_Inr: "lift x w = (Inr y, w') \<longleftrightarrow> x = Inr y \<and> w' = w"
  by (auto simp: lift_def)

lemma iterate_Inr: "iterate a = Inr xs \<Longrightarrow> xs = records_of a"
  by (cases a) (auto simp: iterate_def get_or_def records_of_def)

lemma upsert_matching_count:
  "upsert_matching env lib acct uid aid ps n w = (Inr m, w') \<Longrightarrow>
     m = n + length (filter (matches acct) ps)"
proof (induction ps arbitrary: n w)
  case Nil
  then show ?case by (simp add: ret_eq)
next
  case (Cons p ps)
  show ?case
  proof (cases "matches acct p")
    case False
    then show ?thesis
      using Cons.prems Cons.IH [of n w] by (auto simp: matches_def)
  next
    case True
    then obtain w2 where "upsert_matching env lib acct uid aid ps (Suc n) w2 = (Inr m, w')"
      using Cons.prems by (auto simp: matches_def and_then_eq)
    from Cons.IH [OF this] True show ?thesis by simp
  qed
qed

lemma delete_removed_count:
  "delete_removed env aid rs n w = (Inr m, w') \<Longrightarrow>
     m = n + length (filter (\<lambda>r. removed_key aid r \<noteq> None) rs)"
proof (induction rs arbitrary: n w)
  case Nil
  then show ?case by (simp add: ret_eq)
next
  case (Cons r rs)
  show ?case
  proof (cases "removed_key aid r")
    case None
    then have "delete_removed env aid rs n w = (Inr m, w')"
      using Cons.prems by (auto simp: removed_key_def split: option.splits if_splits)
    from Cons.IH [OF this] show ?thesis
      using None by simp
  next
    case (Some key)
    then obtain txn_id where tid: "get_attr (r_transaction_id r) = Some txn_id" "txn_id \<noteq> []"
      by (auto simp: removed_key_def split: option.splits if_splits)
    obtain w1 where c: "delete_removed env aid rs (Suc n) w1 = (Inr m, w')"
      using Cons.prems tid by (auto simp: and_then_eq)
    from Cons.IH [OF c] show ?thesis
      using Some by simp
  qed
qed

lemma process_page_Inr:
  assumes "process_page env lib acct uid aid resp w = (Inr c, w')"
  obtains na nm nr wa wm where
    "added resp \<noteq> Null" "modified resp \<noteq> Null" "removed resp \<noteq> Null"
    "upsert_matching env lib acct uid aid (records_of (added resp)) 0 w = (Inr na, wa)"
    "upsert_matching env lib acct uid aid (records_of (modified resp)) 0 wa = (Inr nm, wm)"
    "delete_removed env aid (records_of (removed resp)) 0 wm = (Inr nr, w')"
    "c = (na, nm, nr)"
proof -
  from assms obtain adds na wa mods nm wm rems nr where
    1: "iterate (added resp) = Inr adds"
       "upsert_matching env lib acct uid aid adds 0 w = (Inr na, wa)"
       "iterate (modified resp) = Inr mods"
       "upsert_matching env lib acct uid aid mods 0 wa = (Inr nm, wm)"
       "iterate (removed resp) = Inr rems"
       "delete_removed env aid rems 0 wm = (Inr nr, w')" "c = (na, nm, nr)"
    by (auto simp: process_page_def and_then_eq lift_Inr ret_eq)
  have "added resp \<noteq> Null" "modified resp \<noteq> Null" "removed resp \<noteq> Null"
    using 1 by (auto simp: iterate_def get_or_def)
  then show ?thesis
    using 1 that by (auto dest!: iterate_Inr)
qed

text \<open>
  Claim C2, as the code has it. Let every added or modified record that passes the account
  filter carry the key \<open>transaction_id\<close>, let the three loops run to their end on a
  response, and again on the same response from a store holding what the first run left.
  Then the second run leaves the same keys, under each key an item that equals the first
  run's in every attribute but \<open>created_at\<close> and \<open>synced_at\<close>, and it reports the same
  counts.
\<close>

theorem replay_idempotent_with_external_ids:
  assumes ids: "have_external_ids acct (records_of (added resp) @ records_of (modified resp))"
    and r1: "process_page env lib acct uid aid resp w = (Inr c1, w1)"
    and tbl: "transactions_table v = transactions_table w1"
    and r2: "process_page env lib acct uid aid resp v = (Inr c2, w2)"
  shows "dom (transactions_table w2) = dom (transactions_table w1) \<and>
         (\<forall>k. map_option unstamped (transactions_table w2 k)
                = map_option unstamped (transactions_table w1 k)) \<and>
         c2 = c1"
proof -
  let ?A = "records_of (added resp)" and ?M = "records_of (modified resp)"
  let ?R = "records_of (removed resp)"
  have idA: "have_external_ids acct ?A" and idM: "have_external_ids acct ?M"
    using ids by (simp_all add: have_external_ids_def)
  from r1 obtain na nm nr wa wm where
    a: "upsert_matching env lib acct uid aid ?A 0 w = (Inr na, wa)"
    and m: "upsert_matching env lib acct uid aid ?M 0 wa = (Inr nm, wm)"
    and d: "delete_removed env aid ?R 0 wm = (Inr nr, w1)" and c1: "c1 = (na, nm, nr)"
    by (rule process_page_Inr)
  from r2 obtain na' nm' nr' va vm where
    a': "upsert_matching env lib acct uid aid ?A 0 v = (Inr na', va)"
    and m': "upsert_matching env lib acct uid aid ?M 0 va = (Inr nm', vm)"
    and d': "delete_removed env aid ?R 0 vm = (Inr nr', w2)" and c2: "c2 = (na', nm', nr')"
    by (rule process_page_Inr)
  have counts: "c2 = c1"
    using upsert_matching_count [OF a] upsert_matching_count [OF a']
      upsert_matching_count [OF m] upsert_matching_count [OF m']
      delete_removed_count [OF d] delete_removed_count [OF d'] c1 c2 by simp
  have same: "same_but_stamps (transactions_table w2 k) (transactions_table w1 k)" for k
  proof (cases "Some k \<in> removed_key aid ` set ?R")
    case True
    then show ?thesis
      by (simp add: delete_removed_table [OF d] delete_removed_table [OF d'] same_but_stamps_def)
  next
    case notR: False
    have w1k: "transactions_table w1 k = transactions_table wm k"
      and w2k: "transactions_table w2 k = transactions_table vm k"
      using notR by (simp_all add: delete_removed_table [OF d] delete_removed_table [OF d'])
    show ?thesis
    proof (cases "k \<in> external_key aid ` {p \<in> set ?M. matches acct p}")
      case True
      then show ?thesis
        using upsert_matching_sim [OF idM m' m, of k] by (simp add: w1k w2k)
    next
      case notM: False
      have wmk: "transactions_table wm k = transactions_table wa k"
        and vmk: "transactions_table vm k = transactions_table va k"
        using upsert_matching_frame [OF idM m notM] upsert_matching_frame [OF idM m' notM]
        by simp_all
      show ?thesis
      proof (cases "k \<in> external_key aid ` {p \<in> set ?A. matches acct p}")
        case True
        then show ?thesis
          using upsert_matching_sim [OF idA a' a, of k] by (simp add: w1k w2k wmk vmk)
      next
        case notA: False
        have "transactions_table va k = transactions_table v k"
          using upsert_matching_frame [OF idA a' notA] .
        then show ?thesis
          by (simp add: w1k w2k wmk vmk tbl same_but_stamps_def)
      qed
    qed
  qed
  have "dom (transactions_table w2) = dom (transactions_table w1)"
  proof (rule set_eqI)
    fix k
    show "k \<in> dom (transactions_table w2) \<longleftrightarrow> k \<in> dom (transactions_table w1)"
      using same [of k]
      by (cases "transactions_table w2 k"; cases "transactions_table w1 k")
         (simp_all add: same_but_stamps_def dom_def)
  qed
  then show ?thesis
    using same counts by (simp add: same_but_stamps_def)
qed

lemmas page_defs = coffee_page_def nameless_page_def matches_def records_of_def
  have_external_ids_def

theorem replay_idempotent_with_external_ids_witness:
  "have_external_ids demo_account
     (records_of (added coffee_page) @ records_of (modified coffee_page)) \<and>
   \<not> isl (fst (process_page demo_env demo_lib demo_account ''u1'' demo_aid coffee_page demo_world)) \<and>
   \<not> isl (fst (process_page demo_env demo_lib demo_account ''u1'' demo_aid coffee_page
       (snd (process_page demo_env demo_lib demo_account ''u1'' demo_aid coffee_page demo_world)))) \<and>
   map_option amount (transactions_table
       (snd (process_page demo_env demo_lib demo_account ''u1'' demo_aid coffee_page demo_world))
       (''ACCOUNT#'' @ demo_aid, ''TXN#t1'')) = Some (Val 13) \<and>
   dom (transactions_table (snd (process_page demo_env demo_lib demo_account ''u1'' demo_aid coffee_page
       (snd (process_page demo_env demo_lib demo_account ''u1'' demo_aid coffee_page demo_world))))) =
   dom (transactions_table
       (snd (process_page demo_env demo_lib demo_account ''u1'' demo_aid coffee_page demo_world)))"
proof -
  let ?run1 = "process_page demo_env demo_lib demo_account ''u1'' demo_aid coffee_page demo_world"
  let ?run2 = "process_page demo_env demo_lib demo_account ''u1'' demo_aid coffee_page (snd ?run1)"
  have ids: "have_external_ids demo_account
               (records_of (added coffee_page) @ records_of (modified coffee_page))"
    by (simp add: page_defs demo_defs get_attr_def)
  have ok1: "\<not> isl (fst ?run1)"
    by (simp add: run_defs demo_defs page_defs)
  have ok2: "\<not> isl (fst ?run2)"
    by (simp add: run_defs demo_defs page_defs)
  have amt: "map_option amount (transactions_table (snd ?run1) (''ACCOUNT#'' @ demo_aid, ''TXN#t1''))
               = Some (Val 13)"
    by (simp add: run_defs demo_defs page_defs txn_item_def)
  have r1: "?run1 = (Inr (projr (fst ?run1)), snd ?run1)"
    using ok1 by (metis prod.collapse sum.collapse(2))
  have r2: "?run2 = (Inr (projr (fst ?run2)), snd ?run2)"
    using ok2 by (metis prod.collapse sum.collapse(2))
  show ?thesis
    using replay_idempotent_with_external_ids [OF ids r1 refl r2] ids ok1 ok2 amt by blast
qed

text \<open>
  Claim C2 as stated fails: a page whose record has no key \<open>transaction_id\<close> is stored
  under a fresh key at each run, so the second run adds an entry.
\<close>

theorem replay_creates_new_entries_counterexample:
  "\<not> isl (fst (process_page demo_env demo_lib demo_account ''u1'' demo_aid nameless_page demo_world)) \<and>
   \<not> isl (fst (process_page demo_env demo_lib demo_account ''u1'' demo_aid nameless_page
       (snd (process_page demo_env demo_lib demo_account ''u1'' demo_aid nameless_page demo_world)))) \<and>
   transactions_table
       (snd (process_page demo_env demo_lib demo_account ''u1'' demo_aid nameless_page demo_world))
       (''ACCOUNT#'' @ demo_aid, ''TXN#aaa'') = None \<and>
   transactions_table
       (snd (process_page demo_env demo_lib demo_account ''u1'' demo_aid nameless_page
       (snd (process_page demo_env demo_lib demo_account ''u1'' demo_aid nameless_page demo_world))))
       (''ACCOUNT#'' @ demo_aid, ''TXN#aaa'') \<noteq> None"
  by (simp add: run_defs demo_defs page_defs)

section \<open>The legacy day window\<close>

lemma legacy_date_range_eq:
  "legacy_date_range env lib days w =
     (if \<bar>days\<bar> > 999999999
      then (Inl (OverflowError, ''days out of range''),
            w\<lparr>clock_reads := Suc (Suc (clock_reads w))\<rparr>)
      else if utcnow env (Suc (clock_reads w)) - days * DAY < 0
              \<or> MAX_DATETIME < utcnow env (Suc (clock_reads w)) - days * DAY
      then (Inl (OverflowError, ''date value out of range''),
            w\<lparr>clock_reads := Suc (Suc (clock_reads w))\<rparr>)
      else (Inr (strftime_ymd lib (utcnow env (Suc (clock_reads w)) - days * DAY),
                 strftime_ymd lib (utcnow env (clock_reads w))),
            w\<lparr>clock_reads := Suc (Suc (clock_reads w))\<rparr>))"
  by (simp add: legacy_date_range_def prog_defs timedelta_days_def datetime_add_def)

lemma handler_legacy:
  assumes "truthy (ev_account_id ev)" and "validate_uuid (the (ev_account_id ev))"
    and "get_account env (ev_user_id ev) (the (ev_account_id ev)) w0 = (Inr (Some acct), w)"
    and "get_attr (a_plaid_access_token acct) = Some tok" and "tok \<noteq> []"
    and "get_secret_value env = Inr creds"
    and "use_sync_of (ev_use_sync ev) = Inr False"
    and "effective_days lib (ev_days ev) = Inr days"
  shows "handler env lib ev w0 =
           (case legacy_branch env lib acct (ev_user_id ev) (the (ev_account_id ev)) tok creds
                   days w of
              (Inl e, w') \<Rightarrow> (internal_error ''Failed to sync transactions'', w')
            | (Inr r, w') \<Rightarrow> (r, w'))"
  using assms
  by (simp add: handler_def handler_body_def sync_account_def prog_defs truthy_def)

lemma legacy_branch_dates:
  assumes "legacy_date_range env lib days w = (Inr (sd, ed), w1)"
  shows "legacy_branch env lib acct uid aid tok creds days w =
           (case sync_legacy env lib acct uid aid tok creds sd ed w1 of
              (Inl e, w') \<Rightarrow>
                (Inr (service_unavailable (''Failed to fetch transactions: '' @ snd e)), w')
            | (Inr stats, w') \<Rightarrow> (Inr (success stats), w'))"
  using assms by (simp add: legacy_branch_def and_then_def)

text \<open>
  Claim C8, as the code has it. For a request that reaches the legacy branch (the account
  is found and linked, the credentials are read, \<open>use_sync\<close> is not \<open>true\<close>) and whose
  \<open>days\<close> parameter (\<open>"30"\<close> when there is none) \<open>int\<close> reads as \<open>n\<close>, the day count is \<open>n\<close>
  capped at 730 and not bounded below: above 730 it is 730, otherwise it is \<open>n\<close> itself.
  The handler runs the legacy branch with that count, and when the range can be computed
  it asks the aggregator for the dates from that many days before the clock's second
  reading to the clock's first reading.
\<close>

theorem legacy_days_capped_only_above:
  assumes "truthy (ev_account_id ev)" and "validate_uuid (the (ev_account_id ev))"
    and "get_account env (ev_user_id ev) (the (ev_account_id ev)) w0 = (Inr (Some acct), w)"
    and "get_attr (a_plaid_access_token acct) = Some tok" and "tok \<noteq> []"
    and "get_secret_value env = Inr creds"
    and "use_sync_of (ev_use_sync ev) = Inr False"
    and "get_or (ev_days ev) ''30'' = Some s" and "int_str lib s = Some n"
  shows "effective_days lib (ev_days ev) = Inr (min n 730) \<and>
         (730 < n \<longrightarrow> effective_days lib (ev_days ev) = Inr 730) \<and>
         (n \<le> 730 \<longrightarrow> effective_days lib (ev_days ev) = Inr n) \<and>
         handler env lib ev w0 =
           (case legacy_branch env lib acct (ev_user_id ev) (the (ev_account_id ev)) tok creds
                   (min n 730) w of
              (Inl e, w') \<Rightarrow> (internal_error ''Failed to sync transactions'', w')
            | (Inr r, w') \<Rightarrow> (r, w')) \<and>
         (- 999999999 \<le> n \<and> 0 \<le> utcnow env (Suc (clock_reads w)) - min n 730 * DAY
            \<and> utcnow env (Suc (clock_reads w)) - min n 730 * DAY \<le> MAX_DATETIME \<longrightarrow>
          handler env lib ev w0 =
            (case sync_legacy env lib acct (ev_user_id ev) (the (ev_account_id ev)) tok creds
                    (strftime_ymd lib (utcnow env (Suc (clock_reads w)) - min n 730 * DAY))
                    (strftime_ymd lib (utcnow env (clock_reads w)))
                    (w\<lparr>clock_reads := Suc (Suc (clock_reads w))\<rparr>) of
               (Inl e, w') \<Rightarrow>
                 (service_unavailable (''Failed to fetch transactions: '' @ snd e), w')
             | (Inr stats, w') \<Rightarrow> (success stats, w')))"
proof -
  have d: "effective_days lib (ev_days ev) = Inr (min n 730)"
    using assms(8,9) by (simp add: effective_days_def)
  have h: "handler env lib ev w0 =
           (case legacy_branch env lib acct (ev_user_id ev) (the (ev_account_id ev)) tok creds
                   (min n 730) w of
              (Inl e, w') \<Rightarrow> (internal_error ''Failed to sync transactions'', w')
            | (Inr r, w') \<Rightarrow> (r, w'))"
    by (rule handler_legacy [OF assms(1-7) d])
  have r: "handler env lib ev w0 =
            (case sync_legacy env lib acct (ev_user_id ev) (the (ev_account_id ev)) tok creds
                    (strftime_ymd lib (utcnow env (Suc (clock_reads w)) - min n 730 * DAY))
                    (strftime_ymd lib (utcnow env (clock_reads w)))
                    (w\<lparr>clock_reads := Suc (Suc (clock_reads w))\<rparr>) of
               (Inl e, w') \<Rightarrow>
                 (service_unavailable (''Failed to fetch transactions: '' @ snd e), w')
             | (Inr stats, w') \<Rightarrow> (success stats, w'))"
    if "- 999999999 \<le> n" and "0 \<le> utcnow env (Suc (clock_reads w)) - min n 730 * DAY"
      and "utcnow env (Suc (clock_reads w)) - min n 730 * DAY \<le> MAX_DATETIME"
  proof -
    have "legacy_date_range env lib (min n 730) w =
            (Inr (strftime_ymd lib (utcnow env (Suc (clock_reads w)) - min n 730 * DAY),
                  strftime_ymd lib (utcnow env (clock_reads w))),
             w\<lparr>clock_reads := Suc (Suc (clock_reads w))\<rparr>)"
      using that by (simp add: legacy_date_range_eq)
    from legacy_branch_dates [OF this] show ?thesis
      by (simp add: h split: prod.splits sum.splits)
  qed
  show ?thesis
    using d h r by simp
qed

lemma demo_account_found:
  "validate_uuid demo_aid"
  "get_account echo_env ''u1'' demo_aid demo_world
     = (Inr (Some demo_account), demo_world\<lparr>db_calls := Suc 0\<rparr>)"
  "get_attr (a_plaid_access_token demo_account) = Some ''tok''"
  "get_secret_value echo_env = Inr demo_creds"
  "use_sync_of (Val ''false'') = Inr False"
     apply code_simp
    apply (simp add: get_account_def db_call_def echo_env_def demo_env_def demo_world_def)
   apply (simp add: demo_account_def get_attr_def)
  apply (simp add: echo_env_def demo_env_def)
  apply code_simp
  done

lemma echo_legacy:
  "sync_legacy echo_env demo_lib demo_account ''u1'' demo_aid ''tok'' demo_creds sd ed w
     = (Inl (URLError, sd @ '' to '' @ ed), w)"
  by (simp add: sync_legacy_def get_transactions_legacy_def subscript_def demo_creds_def
        echo_env_def demo_env_def prog_defs Let_def)

theorem legacy_days_capped_only_above_witness:
  "effective_days demo_lib (Val ''1000'') = Inr 730 \<and>
   effective_days demo_lib (Val ''7'') = Inr 7 \<and>
   effective_days demo_lib Absent = Inr 30 \<and>
   fst (handler echo_env demo_lib (legacy_event (Val ''1000'')) demo_world)
     = service_unavailable ''Failed to fetch transactions: 2022-03-06 to 2024-03-05'' \<and>
   fst (handler echo_env demo_lib (legacy_event (Val ''7'')) demo_world)
     = service_unavailable ''Failed to fetch transactions: 2024-02-27 to 2024-03-05'' \<and>
   fst (handler echo_env demo_lib (legacy_event Absent) demo_world)
     = service_unavailable ''Failed to fetch transactions: 2024-02-04 to 2024-03-05''"
proof -
  have e: "truthy (ev_account_id (legacy_event d))"
    "validate_uuid (the (ev_account_id (legacy_event d)))"
    "get_account echo_env (ev_user_id (legacy_event d)) (the (ev_account_id (legacy_event d)))
       demo_world = (Inr (Some demo_account), demo_world\<lparr>db_calls := Suc 0\<rparr>)"
    "use_sync_of (ev_use_sync (legacy_event d)) = Inr False" for d
    using demo_account_found by (simp_all add: legacy_event_def truthy_def demo_aid_def)
  have n: "''tok'' \<noteq> []"
    by simp
  have i: "int_str demo_lib ''1000'' = Some 1000" "int_str demo_lib ''7'' = Some 7"
    "int_str demo_lib ''30'' = Some 30"
    by (simp_all add: demo_lib_def)
  have g: "get_or (ev_days (legacy_event (Val ''1000''))) ''30'' = Some ''1000''"
    "get_or (ev_days (legacy_event (Val ''7''))) ''30'' = Some ''7''"
    "get_or (ev_days (legacy_event Absent)) ''30'' = Some ''30''"
    by (simp_all add: legacy_event_def get_or_def)
  note a = legacy_days_capped_only_above [OF e(1-3) demo_account_found(3) n
             demo_account_found(4) e(4) g(1) i(1)]
  note b = legacy_days_capped_only_above [OF e(1-3) demo_account_found(3) n
             demo_account_found(4) e(4) g(2) i(2)]
  note c = legacy_days_capped_only_above [OF e(1-3) demo_account_found(3) n
             demo_account_found(4) e(4) g(3) i(3)]
  have t: "clock_reads demo_world = 0"
    "utcnow echo_env k = 63845236800000000 + int k * 1000000" for k
    by (simp_all add: echo_env_def demo_env_def demo_world_def)
  have s: "strftime_ymd demo_lib 63782164801000000 = ''2022-03-06''"
    "strftime_ymd demo_lib 63844632001000000 = ''2024-02-27''"
    "strftime_ymd demo_lib 63842644801000000 = ''2024-02-04''"
    "strftime_ymd demo_lib 63845236800000000 = ''2024-03-05''"
    by (simp_all add: demo_lib_def)
  have a1: "effective_days demo_lib (Val ''1000'') = Inr 730"
    using a [THEN conjunct1] by (simp add: legacy_event_def)
  have a2: "fst (handler echo_env demo_lib (legacy_event (Val ''1000'')) demo_world)
      = service_unavailable ''Failed to fetch transactions: 2022-03-06 to 2024-03-05''"
    using a [THEN conjunct2, THEN conjunct2, THEN conjunct2, THEN conjunct2]
    by (simp add: t s echo_legacy DAY_def MAX_DATETIME_def legacy_event_def)
  have b1: "effective_days demo_lib (Val ''7'') = Inr 7"
    using b [THEN conjunct1] by (simp add: legacy_event_def)
  have b2: "fst (handler echo_env demo_lib (legacy_event (Val ''7'')) demo_world)
      = service_unavailable ''Failed to fetch transactions: 2024-02-27 to 2024-03-05''"
    using b [THEN conjunct2, THEN conjunct2, THEN conjunct2, THEN conjunct2]
    by (simp add: t s echo_legacy DAY_def MAX_DATETIME_def legacy_event_def)
  have c1: "effective_days demo_lib Absent = Inr 30"
    using c [THEN conjunct1] by (simp add: legacy_event_def)
  have c2: "fst (handler echo_env demo_lib (legacy_event Absent) demo_world)
      = service_unavailable ''Failed to fetch transactions: 2024-02-04 to 2024-03-05''"
    using c [THEN conjunct2, THEN conjunct2, THEN conjunct2, THEN conjunct2]
    by (simp add: t s echo_legacy DAY_def MAX_DATETIME_def legacy_event_def)
  show ?thesis
    using a1 a2 b1 b2 c1 c2 by simp
qed

text \<open>
  Claim C8 as stated fails below 1. A request for 0 days uses 0, not 1: the aggregator is
  asked for the single day 2024-03-05, where a window of 1 day would start on 2024-03-04.
  A request for -5 days uses -5, and the range asked for starts after it ends.
\<close>

theorem legacy_days_not_clamped_below_counterexample:
  "effective_days demo_lib (Val ''0'') = Inr 0 \<and>
   effective_days demo_lib (Val ''0'') \<noteq> Inr (spec_day_window 0) \<and>
   effective_days demo_lib (Val ''-5'') = Inr (- 5) \<and>
   effective_days demo_lib (Val ''-5'') \<noteq> Inr (spec_day_window (- 5)) \<and>
   fst (handler echo_env demo_lib (legacy_event (Val ''0'')) demo_world)
     = service_unavailable ''Failed to fetch transactions: 2024-03-05 to 2024-03-05'' \<and>
   fst (handler echo_env demo_lib (legacy_event (Val ''-5'')) demo_world)
     = service_unavailable ''Failed to fetch transactions: 2024-03-10 to 2024-03-05'' \<and>
   fst (legacy_date_range echo_env demo_lib (spec_day_window 0) (demo_world\<lparr>db_calls := Suc 0\<rparr>))
     = Inr (''2024-03-04'', ''2024-03-05'')"
proof -
  have v: "validate_uuid demo_aid" and n: "demo_aid \<noteq> []"
    by code_simp (simp add: demo_aid_def)
  show ?thesis
    using v n
    by (simp add: handler_def handler_body_def sync_account_def legacy_branch_def
          legacy_date_range_def sync_legacy_def get_transactions_legacy_def subscript_def
          use_sync_of_def effective_days_def spec_day_window_def get_account_def db_call_def
          prog_defs timedelta_days_def datetime_add_def DAY_def MAX_DATETIME_def truthy_def
          get_or_def get_attr_def str_lower_def lower_char_def Let_def
          legacy_event_def echo_env_def demo_env_def demo_world_def demo_account_def
          demo_creds_def demo_lib_def)
qed

section \<open>The rollups over synced transactions\<close>


lemma round_half_even_0: "round_half_even 0 n = 0"
  by (simp add: round_half_even_def)












section \<open>Cash-flow totals\<close>

lemma map_of_add_to:
  "map_of (add_to lib d k v) k' =
     (if k' = k then Some (float_add lib (bucket d k) v) else map_of d k')"
  by (induction d) (auto simp: bucket_def)

lemma bucket_add_to:
  "bucket (add_to lib d k v) k' = (if k' = k then float_add lib (bucket d k) v else bucket d k')"
  by (simp add: bucket_def map_of_add_to)

lemma map_fst_add_to:
  "map fst (add_to lib d k v) = (if k \<in> fst ` set d then map fst d else map fst d @ [k])"
  by (induction d) (force split: if_splits)+

lemma distinct_add_to: "distinct (map fst (add_to lib d k v)) = distinct (map fst d)"
  by (simp add: map_fst_add_to)

lemma sum_add_to:
  "float_add lib = (+) \<Longrightarrow> sum_list (map snd (add_to lib d k v)) = sum_list (map snd d) + v"
  by (induction d) auto

lemma amounts_at_Cons:
  "amounts_at ((k', a) # parts) k = (if k' = k then a # amounts_at parts k else amounts_at parts k)"
  by (simp add: amounts_at_def)

lemma amounts_at_Nil: "amounts_at [] k = []"
  by (simp add: amounts_at_def)

lemma foldl_plus: "foldl (+) a xs = a + (sum_list xs :: rat)"
  by (induction xs arbitrary: a) simp_all

lemma parts_Cons:
  "inflow_parts lib g (t # ts) =
     (case bucketed lib g t of
        None \<Rightarrow> inflow_parts lib g ts
      | Some (k, a) \<Rightarrow> if a \<ge> 0 then (k, a) # inflow_parts lib g ts else inflow_parts lib g ts)"
  "outflow_parts lib g (t # ts) =
     (case bucketed lib g t of
        None \<Rightarrow> outflow_parts lib g ts
      | Some (k, a) \<Rightarrow> if a < 0 then (k, \<bar>a\<bar>) # outflow_parts lib g ts else outflow_parts lib g ts)"
  by (auto simp: inflow_parts_def outflow_parts_def map_filter_simps split: option.splits)

lemma parts_Nil: "inflow_parts lib g [] = []" "outflow_parts lib g [] = []"
  by (simp_all add: inflow_parts_def outflow_parts_def map_filter_simps)

text \<open>One step of the loop, by what the transaction contributes.\<close>

lemma aggregate_loop_step:
  "aggregate_loop lib g (t # ts) ins outs =
     (case get_or (date t) [] of
        None \<Rightarrow> Inl (TypeError, ''NoneType object is not subscriptable'')
      | Some d \<Rightarrow>
         (case bucketed lib g t of
            Some (k, a) \<Rightarrow>
              if a \<ge> 0 then aggregate_loop lib g ts (add_to lib ins k a) outs
              else aggregate_loop lib g ts ins (add_to lib outs k \<bar>a\<bar>)
          | None \<Rightarrow>
              if take 10 d \<noteq> [] \<and> period_key lib g (take 10 d) \<noteq> None
              then Inl (TypeError, ''>= not supported between NoneType and int'')
              else aggregate_loop lib g ts ins outs))"
  by (auto simp: bucketed_def split: option.splits)

lemma grown_refl: "grown lib d [] d"
  by (simp add: grown_def amounts_at_Nil)

lemma grown_step:
  assumes "grown lib (add_to lib d k a) parts d'"
  shows "grown lib d ((k, a) # parts) d'"
  using assms
  by (auto simp: grown_def amounts_at_Cons map_of_add_to bucket_add_to distinct_add_to sum_add_to)

lemma aggregate_loop_Inr:
  "aggregate_loop lib g txns ins outs = Inr (ins', outs') \<Longrightarrow>
     grown lib ins (inflow_parts lib g txns) ins' \<and> grown lib outs (outflow_parts lib g txns) outs'"
proof (induction txns arbitrary: ins outs)
  case Nil
  then show ?case by (simp add: parts_Nil grown_refl)
next
  case (Cons t ts)
  from Cons.prems obtain d where d: "get_or (date t) [] = Some d"
    by (auto simp: aggregate_loop_step simp del: aggregate_loop.simps split: option.splits)
  show ?case
  proof (cases "bucketed lib g t")
    case None
    then have "aggregate_loop lib g ts ins outs = Inr (ins', outs')"
      using Cons.prems d
      by (auto simp: aggregate_loop_step simp del: aggregate_loop.simps split: if_splits)
    from Cons.IH [OF this] show ?thesis
      using None by (simp add: parts_Cons)
  next
    case (Some ka)
    obtain k a where ka: "ka = (k, a)" by (cases ka)
    show ?thesis
    proof (cases "a \<ge> 0")
      case True
      then have "aggregate_loop lib g ts (add_to lib ins k a) outs = Inr (ins', outs')"
        using Cons.prems d Some ka
        by (simp add: aggregate_loop_step del: aggregate_loop.simps)
      from Cons.IH [OF this] show ?thesis
        using Some ka True by (simp add: parts_Cons grown_step)
    next
      case False
      then have "aggregate_loop lib g ts ins (add_to lib outs k \<bar>a\<bar>) = Inr (ins', outs')"
        using Cons.prems d Some ka
        by (simp add: aggregate_loop_step del: aggregate_loop.simps)
      from Cons.IH [OF this] show ?thesis
        using Some ka False by (simp add: parts_Cons grown_step)
    qed
  qed
qed

text \<open>The loop returns whenever no date and no amount is \<open>None\<close>.\<close>

lemma aggregate_loop_total:
  "\<forall>t \<in> set txns. date t \<noteq> Null \<and> amount t \<noteq> Null \<Longrightarrow>
     \<exists>r. aggregate_loop lib g txns ins outs = Inr r"
proof (induction txns arbitrary: ins outs)
  case Nil
  then show ?case by simp
next
  case (Cons t ts)
  then show ?case
    by (cases "date t"; cases "amount t") (auto simp: get_or_def split: option.splits)
qed

lemma cash_flow_returns:
  "\<forall>t \<in> set txns. date t \<noteq> Null \<and> amount t \<noteq> Null \<Longrightarrow> \<exists>r. cash_flow lib txns g = Inr r"
  using aggregate_loop_total [of txns lib g "[]" "[]"]
  by (auto simp: cash_flow_def aggregate_by_granularity_def Let_def)

lemma grown_from_empty:
  assumes "grown lib [] parts d"
  shows "(\<forall>k. map_of d k = (if amounts_at parts k = [] then None
                              else Some (added_up lib (amounts_at parts k)))) \<and>
         distinct (map fst d) \<and>
         (float_add lib = (+) \<longrightarrow>
            sum_list (map snd d) = sum_list (map snd parts) \<and>
            (\<forall>k. bucket d k = sum_list (amounts_at parts k)))"
  using assms by (auto simp: grown_def added_up_def bucket_def foldl_plus)

text \<open>
  Claim C4. In the rollup the cash-flow handler computes from its transactions, the net
  flow is the total inflow minus the total outflow, each total is the \<open>sum\<close> of the
  amounts of its buckets, and a period key has a bucket exactly when a transaction
  contributes to it, the bucket holding the contributing amounts (the non-negative
  amounts for inflows, the magnitudes of the negative ones for outflows) added up in
  order from 0. These hold for the floating-point operations, whatever they round to. In
  arithmetic without rounding each bucket is the sum of its contributions and each total
  the sum of all contributions. The response carries each of these values rounded to 2
  places. The rollup returns whenever no date and no amount is \<open>None\<close>
  (\<open>cash_flow_returns\<close>).
\<close>

theorem cash_flow_totals:
  assumes "cash_flow lib txns g = Inr r"
  shows "cf_net_flow r = float_sub lib (cf_total_inflow r) (cf_total_outflow r) \<and>
         cf_total_inflow r = py_sum lib (map snd (cf_inflows r)) \<and>
         cf_total_outflow r = py_sum lib (map snd (cf_outflows r)) \<and>
         (\<forall>k. map_of (cf_inflows r) k =
                (if amounts_at (inflow_parts lib g txns) k = [] then None
                 else Some (added_up lib (amounts_at (inflow_parts lib g txns) k)))) \<and>
         (\<forall>k. map_of (cf_outflows r) k =
                (if amounts_at (outflow_parts lib g txns) k = [] then None
                 else Some (added_up lib (amounts_at (outflow_parts lib g txns) k)))) \<and>
         distinct (map fst (cf_inflows r)) \<and> distinct (map fst (cf_outflows r)) \<and>
         (exact_arithmetic lib \<longrightarrow>
            cf_net_flow r = cf_total_inflow r - cf_total_outflow r \<and>
            cf_total_inflow r = sum_list (map snd (cf_inflows r)) \<and>
            cf_total_outflow r = sum_list (map snd (cf_outflows r)) \<and>
            cf_total_inflow r = sum_list (map snd (inflow_parts lib g txns)) \<and>
            cf_total_outflow r = sum_list (map snd (outflow_parts lib g txns)) \<and>
            (\<forall>k. bucket (cf_inflows r) k = sum_list (amounts_at (inflow_parts lib g txns) k)) \<and>
            (\<forall>k. bucket (cf_outflows r) k = sum_list (amounts_at (outflow_parts lib g txns) k)))"
proof -
  obtain ins outs where a: "aggregate_loop lib g txns [] [] = Inr (ins, outs)"
    and r: "r = \<lparr>cf_inflows = ins, cf_outflows = outs,
                 cf_total_inflow = py_sum lib (map snd ins),
                 cf_total_outflow = py_sum lib (map snd outs),
                 cf_net_flow = float_sub lib (py_sum lib (map snd ins))
                                 (py_sum lib (map snd outs))\<rparr>"
    using assms
    by (auto simp: cash_flow_def aggregate_by_granularity_def Let_def split: sum.splits)
  have i: "grown lib [] (inflow_parts lib g txns) ins"
    and o: "grown lib [] (outflow_parts lib g txns) outs"
    using aggregate_loop_Inr [OF a] by simp_all
  have s: "py_sum lib xs = sum_list xs" if "exact_arithmetic lib" for xs
    using that by (simp add: py_sum_def exact_arithmetic_def)
  have e: "float_add lib = (+)" "float_sub lib = (-)" if "exact_arithmetic lib"
    using that by (simp_all add: exact_arithmetic_def)
  show ?thesis
    using grown_from_empty [OF i] grown_from_empty [OF o] s e by (simp add: r)
qed

lemma exact_demo_lib: "exact_arithmetic demo_lib"
  by (simp add: exact_arithmetic_def demo_lib_def)

theorem cash_flow_totals_witness:
  "exact_arithmetic demo_lib \<and>
   cash_flow demo_lib march ''daily''
     = Inr \<lparr>cf_inflows = [(''2024-03-01'', 2500), (''2024-03-05'', 39 / 2)],
            cf_outflows = [(''2024-03-01'', 1200), (''2024-03-05'', 50)],
            cf_total_inflow = 5039 / 2, cf_total_outflow = 1250, cf_net_flow = 2539 / 2\<rparr> \<and>
   cf_net_flow (projr (cash_flow demo_lib march ''daily''))
     = cf_total_inflow (projr (cash_flow demo_lib march ''daily''))
       - cf_total_outflow (projr (cash_flow demo_lib march ''daily'')) \<and>
   amounts_at (outflow_parts demo_lib ''daily'' march) ''2024-03-05'' = [161 / 4, 39 / 4] \<and>
   bucket (cf_outflows (projr (cash_flow demo_lib march ''daily''))) ''2024-03-05''
     = sum_list (amounts_at (outflow_parts demo_lib ''daily'' march) ''2024-03-05'') \<and>
   cf_total_outflow (projr (cash_flow demo_lib march ''daily''))
     = sum_list (map snd (outflow_parts demo_lib ''daily'' march))"
proof -
  have r: "cash_flow demo_lib march ''daily''
     = Inr \<lparr>cf_inflows = [(''2024-03-01'', 2500), (''2024-03-05'', 39 / 2)],
            cf_outflows = [(''2024-03-01'', 1200), (''2024-03-05'', 50)],
            cf_total_inflow = 5039 / 2, cf_total_outflow = 1250, cf_net_flow = 2539 / 2\<rparr>"
    by (simp add: cash_flow_def aggregate_by_granularity_def march_def stored_txn_def
          get_or_def period_key_def demo_lib_def py_sum_def Let_def)
  have p: "amounts_at (outflow_parts demo_lib ''daily'' march) ''2024-03-05'' = [161 / 4, 39 / 4]"
    by (simp add: amounts_at_def outflow_parts_def map_filter_def bucketed_def march_def
          stored_txn_def get_or_def period_key_def demo_lib_def)
  show ?thesis
    using cash_flow_totals [OF r] exact_demo_lib r p by simp
qed

section \<open>Percentages of the spending categories\<close>

lemma map_of_count_in:
  "map_of (count_in lib d k v) k' =
     (if k' = k then Some (float_add lib (fst (cell d k)) v, Suc (snd (cell d k)))
      else map_of d k')"
  by (induction d) (auto simp: cell_def)

lemma cell_count_in:
  "cell (count_in lib d k v) k' =
     (if k' = k then (float_add lib (fst (cell d k)) v, Suc (snd (cell d k))) else cell d k')"
  by (simp add: cell_def map_of_count_in)

lemma sum_count_in:
  "float_add lib = (+) \<Longrightarrow>
     sum_list (map (\<lambda>(name, amt, cnt). amt) (count_in lib d k v))
       = sum_list (map (\<lambda>(name, amt, cnt). amt) d) + v"
  by (induction d) auto

lemma counted_refl: "counted lib d [] d"
  by (simp add: counted_def amounts_at_Nil)

lemma counted_step:
  assumes "counted lib (count_in lib d k a) parts d'"
  shows "counted lib d ((k, a) # parts) d'"
  using assms
  by (auto simp: counted_def amounts_at_Cons map_of_count_in cell_count_in sum_count_in)

lemma spending_loop_step:
  "spending_loop lib s e (t # ts) cs =
     (case get_or (date t) [] of
        None \<Rightarrow> Inl (TypeError, ''NoneType object is not subscriptable'')
      | Some d \<Rightarrow>
         (case get_or (amount t) 0 of
            None \<Rightarrow> Inl (TypeError, ''>= not supported between NoneType and int'')
          | Some a \<Rightarrow>
             (case spent s e t of
                None \<Rightarrow> spending_loop lib s e ts cs
              | Some (k, v) \<Rightarrow> spending_loop lib s e ts (count_in lib cs k v))))"
  by (auto simp: spent_def split: option.splits)

lemma spending_parts_Cons:
  "spending_parts s e (t # ts) =
     (case spent s e t of None \<Rightarrow> spending_parts s e ts | Some kv \<Rightarrow> kv # spending_parts s e ts)"
  by (simp add: spending_parts_def map_filter_simps split: option.splits)

lemma spending_loop_Inr:
  "spending_loop lib s e txns cs = Inr cs' \<Longrightarrow> counted lib cs (spending_parts s e txns) cs'"
proof (induction txns arbitrary: cs)
  case Nil
  then show ?case by (simp add: spending_parts_def map_filter_simps counted_refl)
next
  case (Cons t ts)
  show ?case
  proof (cases "spent s e t")
    case None
    then have "spending_loop lib s e ts cs = Inr cs'"
      using Cons.prems
      by (auto simp: spending_loop_step simp del: spending_loop.simps split: option.splits)
    from Cons.IH [OF this] show ?thesis
      using None by (simp add: spending_parts_Cons)
  next
    case (Some kv)
    obtain k v where kv: "kv = (k, v)" by (cases kv)
    have "spending_loop lib s e ts (count_in lib cs k v) = Inr cs'"
      using Cons.prems Some kv
      by (auto simp: spending_loop_step simp del: spending_loop.simps split: option.splits)
    from Cons.IH [OF this] show ?thesis
      using Some kv by (simp add: spending_parts_Cons counted_step)
  qed
qed

lemma spending_loop_total:
  "\<forall>t \<in> set txns. date t \<noteq> Null \<and> amount t \<noteq> Null \<Longrightarrow>
     \<exists>cs'. spending_loop lib s e txns cs = Inr cs'"
proof (induction txns arbitrary: cs)
  case Nil
  then show ?case by simp
next
  case (Cons t ts)
  then show ?case
    by (cases "date t"; cases "amount t") (auto simp: get_or_def)
qed

lemma sum_list_insort_key:
  "sum_list (map f (insort_key g x xs)) = (f x :: rat) + sum_list (map f xs)"
  by (induction xs) auto

lemma sum_list_sort_key: "sum_list (map f (sort_key g xs)) = (sum_list (map f xs) :: rat)"
  by (induction xs) (simp_all add: sum_list_insort_key)

lemma round_half_even_close: "\<bar>round_half_even x n - x\<bar> \<le> 1 / (2 * 10 ^ n)"
proof -
  define s where "s = x * 10 ^ n"
  define f where "f = \<lfloor>s\<rfloor>"
  define r where "r = (if s - of_int f < 1 / 2 then f
                       else if 1 / 2 < s - of_int f then f + 1
                       else if even f then f else f + 1)"
  have p: "(10::rat) ^ n > 0" by simp
  have x: "x = s / 10 ^ n" by (simp add: s_def)
  have f1: "of_int f \<le> s" and f2: "s < of_int f + 1"
    using floor_correct [of s] by (simp_all add: f_def)
  have c: "\<bar>of_int r - s\<bar> \<le> 1 / 2"
    using f1 f2 by (auto simp: r_def abs_if)
  have "round_half_even x n = of_int r / 10 ^ n"
    by (simp add: round_half_even_def Let_def s_def f_def r_def)
  then have "round_half_even x n - x = (of_int r - s) / 10 ^ n"
    by (simp add: x diff_divide_distrib)
  then have "\<bar>round_half_even x n - x\<bar> = \<bar>of_int r - s\<bar> / 10 ^ n"
    by (simp add: abs_divide)
  also have "\<dots> \<le> (1 / 2) / 10 ^ n"
    by (rule divide_right_mono [OF c]) simp
  finally show ?thesis by simp
qed

lemma sum_list_close:
  "list_all2 (\<lambda>r q. \<bar>r - q\<bar> \<le> c) rs qs \<Longrightarrow>
     \<bar>sum_list rs - sum_list qs\<bar> \<le> of_nat (length rs) * (c :: rat)"
proof (induction rule: list_all2_induct)
  case Nil
  then show ?case by simp
next
  case (Cons r rs q qs)
  have "\<bar>sum_list (r # rs) - sum_list (q # qs)\<bar> = \<bar>(r - q) + (sum_list rs - sum_list qs)\<bar>"
    by simp
  also have "\<dots> \<le> \<bar>r - q\<bar> + \<bar>sum_list rs - sum_list qs\<bar>"
    by (rule abs_triangle_ineq)
  also have "\<dots> \<le> c + of_nat (length rs) * c"
    using Cons by (intro add_mono) simp_all
  finally show ?case
    by (simp add: algebra_simps)
qed

lemma sum_list_shares:
  assumes "float_div lib = (/)"
  shows "sum_list (shares lib cs tot)
           = (if tot > 0 then sum_list (map (\<lambda>(name, amt, cnt). amt) cs) / tot else 0)"
proof -
  have "sum_list (map (\<lambda>(name, amt, cnt). percentage_of lib amt tot) cs)
          = (if tot > 0 then sum_list (map (\<lambda>(name, amt, cnt). amt) cs) / tot else 0)"
    using assms by (induction cs) (auto simp: percentage_of_def add_divide_distrib)
  then show ?thesis
    by (simp add: shares_def by_amount_desc_def sum_list_sort_key)
qed

lemma rows_shares:
  "map row_percentage (spending_rows lib cs tot) = map (\<lambda>q. py_round lib q 4) (shares lib cs tot)"
  by (auto simp: spending_rows_def shares_def)

text \<open>
  Claim C7, as the code has it. The category dictionary holds, under each category with an
  expense in the range, the magnitudes of its expenses added up in order from 0 and their
  number. The percentage the response reports for a category is its amount divided by the
  total spending, or 0 when the total is not positive, rounded to 4 places; so all
  reported percentages are 0 when the total is 0. In arithmetic without rounding the total
  is the sum of the magnitudes and the quotients sum to 1 when the total is positive (to 0
  otherwise); each reported percentage is its quotient rounded half-even to 4 places, at
  most 0.00005 away from it, so the reported percentages sum to 1 (or 0) up to 0.00005
  times the number of categories.
\<close>

theorem category_percentages_are_rounded:
  assumes "spending_loop lib start_date end_date txns [] = Inr cs"
  shows "spending_by_category lib start_date end_date txns
           = Inr \<lparr>sp_categories = spending_rows lib cs (total_of lib cs),
                  sp_total_spending = py_round lib (total_of lib cs) 2\<rparr> \<and>
         (\<forall>k. map_of cs k =
                (if amounts_at (spending_parts start_date end_date txns) k = [] then None
                 else Some (added_up lib (amounts_at (spending_parts start_date end_date txns) k),
                            length (amounts_at (spending_parts start_date end_date txns) k)))) \<and>
         map row_percentage (spending_rows lib cs (total_of lib cs))
           = map (\<lambda>(name, amt, cnt).
                    py_round lib (if total_of lib cs > 0 then float_div lib amt (total_of lib cs)
                                  else 0) 4)
               (by_amount_desc cs) \<and>
         (\<not> total_of lib cs > 0 \<longrightarrow>
            (\<forall>row \<in> set (spending_rows lib cs (total_of lib cs)). row_percentage row = 0)) \<and>
         (exact_arithmetic lib \<longrightarrow>
            total_of lib cs = sum_list (map snd (spending_parts start_date end_date txns)) \<and>
            shares lib cs (total_of lib cs)
              = map (\<lambda>(name, amt, cnt). if total_of lib cs > 0 then amt / total_of lib cs else 0)
                  (by_amount_desc cs) \<and>
            sum_list (shares lib cs (total_of lib cs)) = (if total_of lib cs > 0 then 1 else 0) \<and>
            list_all2 (\<lambda>row q. row_percentage row = round_half_even q 4 \<and>
                                \<bar>row_percentage row - q\<bar> \<le> 1 / 20000)
              (spending_rows lib cs (total_of lib cs)) (shares lib cs (total_of lib cs)) \<and>
            \<bar>sum_list (map row_percentage (spending_rows lib cs (total_of lib cs)))
               - (if total_of lib cs > 0 then 1 else 0)\<bar> \<le> of_nat (length cs) / 20000)"
proof -
  let ?tot = "total_of lib cs"
  let ?rows = "spending_rows lib cs ?tot"
  note c = spending_loop_Inr [OF assms]
  have 1: "spending_by_category lib start_date end_date txns
           = Inr \<lparr>sp_categories = ?rows, sp_total_spending = py_round lib ?tot 2\<rparr>"
    by (simp add: spending_by_category_def assms)
  have 2: "\<forall>k. map_of cs k =
                (if amounts_at (spending_parts start_date end_date txns) k = [] then None
                 else Some (added_up lib (amounts_at (spending_parts start_date end_date txns) k),
                            length (amounts_at (spending_parts start_date end_date txns) k)))"
    using c by (simp add: counted_def cell_def added_up_def)
  have 3: "map row_percentage ?rows
           = map (\<lambda>(name, amt, cnt).
                    py_round lib (if ?tot > 0 then float_div lib amt ?tot else 0) 4)
               (by_amount_desc cs)"
    by (auto simp: spending_rows_def percentage_of_def)
  have 4: "\<forall>row \<in> set ?rows. row_percentage row = 0" if "\<not> ?tot > 0"
    using that by (auto simp: spending_rows_def percentage_of_def py_round_def)
  have 5: "?tot = sum_list (map snd (spending_parts start_date end_date txns)) \<and>
           shares lib cs ?tot
              = map (\<lambda>(name, amt, cnt). if ?tot > 0 then amt / ?tot else 0) (by_amount_desc cs) \<and>
           sum_list (shares lib cs ?tot) = (if ?tot > 0 then 1 else 0) \<and>
           list_all2 (\<lambda>row q. row_percentage row = round_half_even q 4 \<and>
                                \<bar>row_percentage row - q\<bar> \<le> 1 / 20000)
              ?rows (shares lib cs ?tot) \<and>
           \<bar>sum_list (map row_percentage ?rows) - (if ?tot > 0 then 1 else 0)\<bar>
              \<le> of_nat (length cs) / 20000"
    if x: "exact_arithmetic lib"
  proof -
    have e: "float_add lib = (+)" "float_div lib = (/)" "float_sum lib = sum_list"
      "float_round lib = round_half_even"
      using x by (simp_all add: exact_arithmetic_def)
    have t: "?tot = sum_list (map (\<lambda>(name, amt, cnt). amt) cs)"
      by (simp add: total_of_def py_sum_def e)
    have a: "?tot = sum_list (map snd (spending_parts start_date end_date txns))"
      using c e by (simp add: t counted_def)
    have b: "shares lib cs ?tot
              = map (\<lambda>(name, amt, cnt). if ?tot > 0 then amt / ?tot else 0) (by_amount_desc cs)"
      by (auto simp: shares_def percentage_of_def e)
    have s: "sum_list (shares lib cs ?tot) = (if ?tot > 0 then 1 else 0)"
      using sum_list_shares [OF e(2), of cs ?tot] t by simp
    have r: "py_round lib q 4 = round_half_even q 4" for q
      by (simp add: py_round_def e round_half_even_0)
    have l: "list_all2 (\<lambda>row q. row_percentage row = round_half_even q 4 \<and>
                                \<bar>row_percentage row - q\<bar> \<le> 1 / 20000)
              ?rows (shares lib cs ?tot)"
      using round_half_even_close [of _ 4]
      by (auto simp: spending_rows_def shares_def list_all2_map1 list_all2_map2 r
               intro!: list_all2_same [THEN iffD2])
    have "list_all2 (\<lambda>row q. \<bar>row_percentage row - q\<bar> \<le> 1 / 20000)
            ?rows (shares lib cs ?tot)"
      using l by (rule list_all2_mono) (erule conjunct2)
    then have "list_all2 (\<lambda>p q. \<bar>p - q\<bar> \<le> 1 / 20000)
                 (map row_percentage ?rows) (shares lib cs ?tot)"
      by (simp add: list_all2_map1)
    from sum_list_close [OF this]
    have "\<bar>sum_list (map row_percentage ?rows) - sum_list (shares lib cs ?tot)\<bar>
            \<le> of_nat (length cs) / 20000"
      by (simp add: spending_rows_def by_amount_desc_def)
    then show ?thesis
      using a b s l by simp
  qed
  show ?thesis
    using 1 2 3 4 5 by blast
qed


theorem category_percentages_are_rounded_witness:
  "exact_arithmetic demo_lib \<and>
   spending_loop demo_lib ''2024-03-01'' ''2024-03-31'' march []
     = Inr [(Some ''Rent And Utilities'', 1200, 1), (Some ''Food And Drink'', 50, 2)] \<and>
   total_of demo_lib [(Some ''Rent And Utilities'', 1200, 1), (Some ''Food And Drink'', 50, 2)]
     = 1250 \<and>
   shares demo_lib [(Some ''Rent And Utilities'', 1200, 1), (Some ''Food And Drink'', 50, 2)] 1250
     = [24 / 25, 1 / 25] \<and>
   map row_percentage (sp_categories (projr
     (spending_by_category demo_lib ''2024-03-01'' ''2024-03-31'' march))) = [24 / 25, 1 / 25] \<and>
   \<bar>sum_list (map row_percentage (sp_categories (projr
       (spending_by_category demo_lib ''2024-03-01'' ''2024-03-31'' march)))) - 1\<bar>
     \<le> 2 / 20000"
proof -
  let ?cs = "[(Some ''Rent And Utilities'', 1200 :: rat, 1 :: nat), (Some ''Food And Drink'', 50, 2)]"
  have r: "spending_loop demo_lib ''2024-03-01'' ''2024-03-31'' march [] = Inr ?cs"
    by (simp add: march_def stored_txn_def get_or_def demo_lib_def)
  have t: "total_of demo_lib ?cs = 1250"
    by (simp add: total_of_def py_sum_def demo_lib_def)
  have s: "shares demo_lib ?cs 1250 = [24 / 25, 1 / 25]"
    by (simp add: shares_def by_amount_desc_def percentage_of_def demo_lib_def)
  have p: "map row_percentage (spending_rows demo_lib ?cs 1250) = [24 / 25, 1 / 25]"
    by code_simp
  note T = category_percentages_are_rounded [OF r]
  note E = T [THEN conjunct2, THEN conjunct2, THEN conjunct2, THEN conjunct2, THEN mp,
              OF exact_demo_lib]
  have b: "spending_by_category demo_lib ''2024-03-01'' ''2024-03-31'' march
             = Inr \<lparr>sp_categories = spending_rows demo_lib ?cs 1250,
                    sp_total_spending = py_round demo_lib 1250 2\<rparr>"
    using T [THEN conjunct1] unfolding t .
  have c: "\<bar>sum_list (map row_percentage (spending_rows demo_lib ?cs 1250)) - 1\<bar> \<le> 2 / 20000"
    using E [THEN conjunct2, THEN conjunct2, THEN conjunct2, THEN conjunct2] unfolding t
    by simp
  show ?thesis
    using exact_demo_lib r t s p c by (simp add: b)
qed

text \<open>
  Claim C7 as stated fails for the reported percentages. Six categories with an expense of
  1 each are reported with 0.1667 each, which sum to 1.0002, more than 1; three such
  categories are reported with 0.3333 each, which sum to 0.9999 although the total
  spending is positive.
\<close>

theorem reported_percentages_miss_one_counterexample:
  "\<not> isl (spending_by_category demo_lib ''2024-03-01'' ''2024-03-31'' six_expenses) \<and>
   sp_total_spending (projr
     (spending_by_category demo_lib ''2024-03-01'' ''2024-03-31'' six_expenses)) = 6 \<and>
   map row_percentage (sp_categories (projr
     (spending_by_category demo_lib ''2024-03-01'' ''2024-03-31'' six_expenses)))
     = [1667 / 10000, 1667 / 10000, 1667 / 10000, 1667 / 10000, 1667 / 10000, 1667 / 10000] \<and>
   sum_list (map row_percentage (sp_categories (projr
     (spending_by_category demo_lib ''2024-03-01'' ''2024-03-31'' six_expenses)))) = 5001 / 5000 \<and>
   1 < sum_list (map row_percentage (sp_categories (projr
     (spending_by_category demo_lib ''2024-03-01'' ''2024-03-31'' six_expenses)))) \<and>
   sp_total_spending (projr
     (spending_by_category demo_lib ''2024-03-01'' ''2024-03-31'' (take 3 six_expenses))) = 3 \<and>
   sum_list (map row_percentage (sp_categories (projr
     (spending_by_category demo_lib ''2024-03-01'' ''2024-03-31'' (take 3 six_expenses)))))
     = 9999 / 10000"
  by code_simp

section \<open>The projection for an overdue goal\<close>

text \<open>
  Claim C6, as the code has it. For a goal with a target date that parses, a positive
  target amount, a creation time that parses, a current amount that leaves a positive
  remainder \<open>target_amount - current_amount\<close>, a positive number of days elapsed since
  creation and a number of days to the target date that is not positive, the projection
  returns the goal's target date as the projected date, \<open>on_track = False\<close>, and
  \<open>daily_rate * 30\<close> as the monthly contribution, where \<open>daily_rate\<close> is the current
  amount divided by the days elapsed.
\<close>

theorem overdue_goal_reports_target_date:
  assumes "get_attr (g_target_date goal) = Some td" and "td \<noteq> []"
    and "get_or (g_target_amount goal) 0 = Some tgt" and "0 < tgt"
    and "strptime_ymd lib td = Some target"
    and "get_or (g_created_at goal) [] = Some ca"
    and "fromisoformat lib (replace_Z ca) = Some created_dt"
    and "get_or (g_current_amount goal) 0 = Some cur"
    and "0 < float_sub lib tgt cur"
    and "0 < days_between now (without_tzinfo created_dt)"
    and "days_between target now \<le> 0"
  shows "calculate_projected_completion lib now goal
           = Inr (Some td, False,
                  float_mul lib
                    (float_div lib cur (of_int (days_between now (without_tzinfo created_dt))))
                    30)"
  using assms by (simp add: calculate_projected_completion_def Let_def truthy_def)

theorem overdue_goal_reports_target_date_witness:
  "get_attr (g_target_date late_goal) = Some ''2024-03-01'' \<and>
   get_or (g_target_amount late_goal) 0 = Some 1000 \<and>
   get_or (g_current_amount late_goal) 0 = Some 320 \<and>
   0 < float_sub demo_lib 1000 320 \<and>
   strptime_ymd demo_lib ''2024-03-01'' = Some 63844848000000000 \<and>
   fromisoformat demo_lib (replace_Z ''2024-01-01T00:00:00Z'') = Some (Aware 63839664000000000 0) \<and>
   days_between noon (without_tzinfo (Aware 63839664000000000 0)) = 64 \<and>
   days_between 63844848000000000 noon = - 5 \<and>
   calculate_projected_completion demo_lib noon late_goal = Inr (Some ''2024-03-01'', False, 150)"
proof -
  have a: "get_attr (g_target_date late_goal) = Some ''2024-03-01''" "''2024-03-01'' \<noteq> []"
    "get_or (g_target_amount late_goal) 0 = Some 1000" "(0::rat) < 1000"
    "get_or (g_created_at late_goal) [] = Some ''2024-01-01T00:00:00Z''"
    "get_or (g_current_amount late_goal) 0 = Some 320"
    by (simp_all add: late_goal_def empty_goal_def get_attr_def get_or_def)
  have b: "strptime_ymd demo_lib ''2024-03-01'' = Some 63844848000000000"
    "fromisoformat demo_lib (replace_Z ''2024-01-01T00:00:00Z'')
       = Some (Aware 63839664000000000 0)"
    "0 < float_sub demo_lib 1000 320"
    by (simp_all add: demo_lib_def replace_Z_def)
  have c: "days_between noon (without_tzinfo (Aware 63839664000000000 0)) = 64"
    "days_between 63844848000000000 noon = - 5"
    by (simp_all add: days_between_def without_tzinfo_def noon_def DAY_def)
  have d: "0 < days_between noon (without_tzinfo (Aware 63839664000000000 0))"
    "days_between 63844848000000000 noon \<le> 0"
    by (simp_all add: c)
  have "calculate_projected_completion demo_lib noon late_goal
          = Inr (Some ''2024-03-01'', False,
                 float_mul demo_lib
                   (float_div demo_lib 320
                      (of_int (days_between noon (without_tzinfo (Aware 63839664000000000 0)))))
                   30)"
    by (rule overdue_goal_reports_target_date [OF a(1-4) b(1) a(5) b(2) a(6) b(3) d])
  then have "calculate_projected_completion demo_lib noon late_goal
               = Inr (Some ''2024-03-01'', False, 150)"
    by (simp add: c demo_lib_def)
  then show ?thesis
    using a b c by simp
qed

text \<open>
  Claim C6 as stated fails in its first component: for an overdue goal the projected date
  the function returns is the target date, not \<open>None\<close>.
\<close>

theorem overdue_goal_has_projected_date_counterexample:
  "calculate_projected_completion demo_lib noon late_goal = Inr (Some ''2024-03-01'', False, 150) \<and>
   fst (projr (calculate_projected_completion demo_lib noon late_goal)) \<noteq> None"
  by (simp add: calculate_projected_completion_def Let_def truthy_def late_goal_def
        empty_goal_def get_attr_def get_or_def demo_lib_def replace_Z_def days_between_def
        without_tzinfo_def noon_def DAY_def)

end
